theory Spec2Isabelle
  imports Main "HOL-Library.Word" "HOL-Library.Char_ord" "HOL-Library.List_Lexorder"
begin

unbundle bit_operations_syntax

section \<open>Ledger data model\<close>

text \<open>
  The two hashed tables of the ledger, with the columns the schema of
  \<^verbatim>\<open>AppDatabase.initializeSchema\<close> declares.  The Reclaimer's fetcher and reporter
  read and write one more column, \<^verbatim>\<open>processing_lock\<close>, which that schema does not
  create: a row carries the field, and the functions that depend on the column take a
  flag saying whether the table has it.  Nullable columns are options.  A table is
  the list of its rows in rowid order (the order of insertion).  Text is modelled up
  to U+00FF: a character is one UTF-16 code unit below 256.  On such text the order
  of the characters is JavaScript's code-unit order and also the order of the UTF-8
  bytes, which is SQLite's BINARY collation.
\<close>

record SponsoredAccount =
  account_pubkey :: string
  creation_signature :: string
  slot :: int
  discovered_at :: "string option"
  operator_pubkey :: string
  lifecycle_state :: string
  lamports :: "int option"
  data_len :: "int option"
  owner_program :: "string option"
  last_lifecycle_check :: "string option"
  processing_lock :: "string option"

record LifecycleEvent =
  event_id :: int
  ev_account_pubkey :: string
  old_state :: string
  new_state :: string
  trigger_reason :: string
  evidence_payload :: "string option"
  ev_timestamp :: "string option"

record Ledger =
  sponsored_accounts :: "SponsoredAccount list"
  lifecycle_events :: "LifecycleEvent list"

section \<open>Decimal rendering\<close>

text \<open>
  The decimal digits of an integer, with a leading minus sign for a negative one:
  \<^verbatim>\<open>BigInt.prototype.toString\<close>, and the rendering of an array length.
\<close>

definition digit_char :: "nat \<Rightarrow> char" where
  "digit_char d = ''0123456789'' ! (d mod 10)"

function show_nat :: "nat \<Rightarrow> string" where
  "show_nat n = (if n < 10 then [digit_char n] else show_nat (n div 10) @ [digit_char (n mod 10)])"
  by pat_completeness auto
termination
  by (relation "measure id") auto

declare show_nat.simps [simp del]

definition show_int :: "int \<Rightarrow> string" where
  "show_int i = (if i < 0 then CHR ''-'' # show_nat (nat (- i)) else show_nat (nat i))"

section \<open>JavaScript numbers\<close>

text \<open>
  A JavaScript number is a double.  The numbers of the ledger and of the attestation
  documents are integers, so a number is modelled by its integer value.  Every integer
  of magnitude at most \<open>2^53\<close> is a double; beyond that \<open>to_double\<close> is the nearest
  double, ties to the even mantissa, which is what the SQLite driver hands over for a
  stored 64-bit integer and what \<^verbatim>\<open>JSON.parse\<close> reads from an integer literal (values
  of magnitude \<open>2^1024\<close> and more, which become \<^verbatim>\<open>Infinity\<close>, are outside the model).
  \<open>Number_toString\<close> is ECMAScript's \<^verbatim>\<open>Number::toString\<close> on integer values: up to
  \<open>2^53\<close> the decimal digits of the integer; beyond, the shortest digit string that
  reads back as the same double, padded with zeros below \<open>10^21\<close> and in exponent
  notation from there on.
\<close>

function ulp_from :: "int \<Rightarrow> int \<Rightarrow> int" where
  "ulp_from u n = (if u \<le> 0 \<or> n < 9007199254740992 * u then u else ulp_from (2 * u) n)"
  by pat_completeness auto
termination
  by (relation "measure (\<lambda>(u, n). nat (n + 1 - 9007199254740992 * u))") auto

declare ulp_from.simps [simp del]

definition round_even :: "int \<Rightarrow> int \<Rightarrow> int" where
  "round_even u n =
     (if 2 * (n mod u) < u then n - n mod u
      else if u < 2 * (n mod u) then n - n mod u + u
      else if even (n div u) then n - n mod u
      else n - n mod u + u)"

definition to_double :: "int \<Rightarrow> int" where
  "to_double n =
     (if n < 0 then - round_even (ulp_from 1 (- n)) (- n) else round_even (ulp_from 1 n) n)"

text \<open>
  The shortest digits: for each power of ten \<open>p\<close>, largest first, the two multiples of
  \<open>p\<close> around the double \<open>d\<close> are tried; the first that reads back as \<open>d\<close> is printed,
  the nearer one when both do.
\<close>

definition shortest_at :: "int \<Rightarrow> int \<Rightarrow> int option" where
  "shortest_at d p =
     (if to_double (d - d mod p) = d then
        (if to_double (d - d mod p + p) = d \<and> p < 2 * (d mod p) then Some (d - d mod p + p)
         else Some (d - d mod p))
      else if to_double (d - d mod p + p) = d then Some (d - d mod p + p)
      else None)"

fun shortest :: "int \<Rightarrow> int list \<Rightarrow> int" where
  "shortest d [] = d"
| "shortest d (p # ps) = (case shortest_at d p of Some c \<Rightarrow> c | None \<Rightarrow> shortest d ps)"

definition powers_of_ten :: "int \<Rightarrow> int list" where
  "powers_of_ten d = rev (map (\<lambda>i. 10 ^ i) [0..<length (show_nat (nat d))])"

definition strip_zeros :: "string \<Rightarrow> string" where
  "strip_zeros s = rev (dropWhile (\<lambda>c. c = CHR ''0'') (rev s))"

definition exponent_form :: "string \<Rightarrow> string" where
  "exponent_form ds =
     hd ds # (if strip_zeros (tl ds) = [] then [] else CHR ''.'' # strip_zeros (tl ds))
       @ ''e+'' @ show_nat (length ds - 1)"

definition double_digits :: "int \<Rightarrow> string" where
  "double_digits d =
     (if d < 1000000000000000000000 then show_nat (nat (shortest d (powers_of_ten d)))
      else exponent_form (show_nat (nat (shortest d (powers_of_ten d)))))"

definition Number_toString :: "int \<Rightarrow> string" where
  "Number_toString n =
     (if - 9007199254740992 \<le> n \<and> n \<le> 9007199254740992 then show_int n
      else if n < 0 then CHR ''-'' # double_digits (- to_double n)
      else double_digits (to_double n))"

section \<open>AppDatabase: the process-wide connection\<close>

text \<open>
  \<^verbatim>\<open>AppDatabase.instance\<close> is a static field; \<^verbatim>\<open>getInstance\<close> opens a connection
  only while the field is unset.  The SQLite driver is a parameter: for a path it
  either fails in the constructor (nothing is assigned), fails after the assignment
  (a pragma or the schema script throws), or succeeds.
\<close>

record Connection =
  conn_path :: string
  conn_verbose :: bool
  conn_schema_applied :: bool
  conn_closed :: bool

datatype driver_outcome = ConstructorThrows | SetupThrows | Ready

datatype db_error = SqliteError string

record AppDatabase =
  db_instance :: "Connection option"

definition apply_schema :: "Connection \<Rightarrow> Connection" where
  "apply_schema c = c\<lparr>conn_schema_applied := True\<rparr>"

function getInstance ::
    "(string \<Rightarrow> driver_outcome) \<Rightarrow> string \<Rightarrow> bool \<Rightarrow> AppDatabase \<Rightarrow> (db_error + Connection) \<times> AppDatabase"
  and initializeSchema ::
    "(string \<Rightarrow> driver_outcome) \<Rightarrow> string \<Rightarrow> AppDatabase \<Rightarrow> (db_error + unit) \<times> AppDatabase"
where
  "getInstance drv dbPath verbose st =
     (case db_instance st of
        None \<Rightarrow>
          (case drv dbPath of
             ConstructorThrows \<Rightarrow> (Inl (SqliteError dbPath), st)
           | _ \<Rightarrow>
              (let st1 = st\<lparr>db_instance := Some \<lparr>conn_path = dbPath, conn_verbose = verbose,
                                   conn_schema_applied = False, conn_closed = False\<rparr>\<rparr>
               in case initializeSchema drv dbPath st1 of
                    (Inl e, st2) \<Rightarrow> (Inl e, st2)
                  | (Inr _, st2) \<Rightarrow>
                      (case db_instance st2 of
                         Some c \<Rightarrow> (Inr c, st2)
                       | None \<Rightarrow> (Inl (SqliteError dbPath), st2))))
      | Some c \<Rightarrow> (Inr c, st))"
| "initializeSchema drv opened st =
     (case db_instance st of
        None \<Rightarrow> (Inl (SqliteError []), st)
      | Some _ \<Rightarrow>
         (case getInstance drv [] False st of
            (Inl e, st1) \<Rightarrow> (Inl e, st1)
          | (Inr db, st1) \<Rightarrow>
              (if drv opened = SetupThrows then (Inl (SqliteError opened), st1)
               else (Inr (), st1\<lparr>db_instance := Some (apply_schema db)\<rparr>))))"
  by pat_completeness auto
termination
  by (relation "measure (\<lambda>x. case x of
          Inl (drv, p, v, st) \<Rightarrow> (if db_instance st = None then 2 else 0)
        | Inr (drv, p, st) \<Rightarrow> (if db_instance st = None then 3 else 1))") auto

definition close_db :: "AppDatabase \<Rightarrow> AppDatabase" where
  "close_db st = (case db_instance st of
                    None \<Rightarrow> st
                  | Some c \<Rightarrow> st\<lparr>db_instance := Some (c\<lparr>conn_closed := True\<rparr>)\<rparr>)"

text \<open>A sequence of \<^verbatim>\<open>getInstance\<close> calls, each with its own path and verbosity.\<close>

fun getInstance_calls ::
    "(string \<Rightarrow> driver_outcome) \<Rightarrow> (string \<times> bool) list \<Rightarrow> AppDatabase
      \<Rightarrow> (db_error + Connection) list \<times> AppDatabase" where
  "getInstance_calls drv [] st = ([], st)"
| "getInstance_calls drv ((p, v) # rest) st =
     (case getInstance drv p v st of
        (r, st1) \<Rightarrow> (case getInstance_calls drv rest st1 of (rs, st2) \<Rightarrow> (r # rs, st2)))"

section \<open>Reclaimer: fetch and lock\<close>

text \<open>
  \<^verbatim>\<open>ReclaimerFetcher.fetchAndLock\<close> runs one SELECT and one UPDATE per selected row
  inside a single \<^verbatim>\<open>db.transaction\<close>; the model is one step from the table before
  to the rows returned and the table after.  On a table without the
  \<^verbatim>\<open>processing_lock\<close> column the SELECT does not compile: the call throws and nothing
  changes.  SQLite reads a negative LIMIT as no limit.  The UPDATE addresses rows by
  \<^verbatim>\<open>account_pubkey\<close>.  The driver hands a stored integer over as a double.  The
  worker id is the one \<^verbatim>\<open>ReclaimerOrchestrator\<close> makes in its constructor from a
  fresh UUID.
\<close>

record ReclaimableAccount =
  ra_account_pubkey :: string
  ra_lamports :: "int option"

definition worker_id :: "string \<Rightarrow> string" where
  "worker_id uuid = ''worker-'' @ uuid"

definition lock_free :: "SponsoredAccount \<Rightarrow> bool" where
  "lock_free r = (processing_lock r = None \<or> processing_lock r = Some [])"

definition sql_limit :: "int \<Rightarrow> 'a list \<Rightarrow> 'a list" where
  "sql_limit n rows = (if n < 0 then rows else take (nat n) rows)"

definition select_candidates :: "int \<Rightarrow> SponsoredAccount list \<Rightarrow> SponsoredAccount list" where
  "select_candidates limit tbl =
     sql_limit limit (filter (\<lambda>r. lifecycle_state r = ''RECLAIMABLE'' \<and> lock_free r) tbl)"

definition update_lock :: "string \<Rightarrow> string \<Rightarrow> SponsoredAccount list \<Rightarrow> SponsoredAccount list" where
  "update_lock workerId pubkey tbl =
     map (\<lambda>r. if account_pubkey r = pubkey then r\<lparr>processing_lock := Some workerId\<rparr> else r) tbl"

definition fetchAndLock ::
    "bool \<Rightarrow> int \<Rightarrow> string \<Rightarrow> Ledger \<Rightarrow> (db_error + ReclaimableAccount list) \<times> Ledger" where
  "fetchAndLock lock_column limit workerId db =
     (if \<not> lock_column then (Inl (SqliteError ''no such column: processing_lock''), db)
      else
        (let candidates = select_candidates limit (sponsored_accounts db) in
         if candidates = [] then (Inr [], db)
         else (Inr (map (\<lambda>c. \<lparr>ra_account_pubkey = account_pubkey c,
                                ra_lamports = map_option to_double (lamports c)\<rparr>) candidates),
               db\<lparr>sponsored_accounts :=
                    fold (update_lock workerId) (map account_pubkey candidates)
                         (sponsored_accounts db)\<rparr>)))"

text \<open>A RECLAIMABLE, unlocked row, and a ledger holding two of them and a protected one.\<close>

definition reclaimable_row :: "string \<Rightarrow> int \<Rightarrow> SponsoredAccount" where
  "reclaimable_row pk bal =
     \<lparr>account_pubkey = pk, creation_signature = ''sig'', slot = 1,
      discovered_at = Some ''2024-01-01 00:00:00'', operator_pubkey = ''Op'',
      lifecycle_state = ''RECLAIMABLE'', lamports = Some bal, data_len = Some 0,
      owner_program = Some ''11111111111111111111111111111111'',
      last_lifecycle_check = Some ''2024-01-02 00:00:00'', processing_lock = None\<rparr>"

definition lock_ledger :: Ledger where
  "lock_ledger =
     \<lparr>sponsored_accounts =
        [reclaimable_row ''A'' 5000, (reclaimable_row ''B'' 7000)\<lparr>lifecycle_state := ''PROTECTED''\<rparr>,
         reclaimable_row ''C'' 9000],
      lifecycle_events = []\<rparr>"

section \<open>Reclaimer: just-in-time verification\<close>

text \<open>
  \<^verbatim>\<open>ReclaimerVerifier.verify\<close>.  The chain is a parameter: \<^verbatim>\<open>getMultipleAccountsInfo\<close>
  either throws or answers with a list of account infos, \<open>None\<close> for an absent
  account.  The \<^verbatim>\<open>PublicKey\<close> constructor throws on a string that is not an address,
  which is the parameter \<open>isPubkey\<close>.  Reading \<^verbatim>\<open>accountInfos[i]\<close> beyond the answer
  gives \<^verbatim>\<open>undefined\<close>, which the existence check treats as absent.
\<close>

record AccountInfo =
  ai_lamports :: int
  ai_owner :: string
  ai_data_length :: nat
  ai_executable :: bool

record VerifiedAccount =
  va_account_pubkey :: string
  va_lamports :: "int option"
  verifiedLamports :: int

record InvalidAccount =
  inv_pubkey :: string
  inv_reason :: string
  inv_status :: string

record VerificationResult =
  valid :: "VerifiedAccount list"
  invalid :: "InvalidAccount list"

datatype rpc_error = RpcFailure string | InvalidPublicKey string

definition SYSTEM_PROGRAM_ID :: string where
  "SYSTEM_PROGRAM_ID = ''11111111111111111111111111111111''"

definition info_at :: "AccountInfo option list \<Rightarrow> nat \<Rightarrow> AccountInfo option" where
  "info_at accountInfos i = (if i < length accountInfos then accountInfos ! i else None)"

function verify_loop ::
    "ReclaimableAccount list \<Rightarrow> AccountInfo option list \<Rightarrow> nat
      \<Rightarrow> VerificationResult \<Rightarrow> VerificationResult" where
  "verify_loop accounts accountInfos i res =
     (if i < length accounts then
        (let acc = accounts ! i; pubkeyStr = ra_account_pubkey acc in
         case info_at accountInfos i of
           None \<Rightarrow>
             verify_loop accounts accountInfos (i + 1)
               (res\<lparr>invalid := invalid res @
                  [\<lparr>inv_pubkey = pubkeyStr, inv_reason = ''Account does not exist on-chain'',
                    inv_status = ''closed_zero''\<rparr>]\<rparr>)
         | Some info \<Rightarrow>
             if ai_lamports info = 0 then
               verify_loop accounts accountInfos (i + 1)
                 (res\<lparr>invalid := invalid res @
                    [\<lparr>inv_pubkey = pubkeyStr, inv_reason = ''Account has 0 lamports'',
                      inv_status = ''closed_zero''\<rparr>]\<rparr>)
             else if ai_owner info \<noteq> SYSTEM_PROGRAM_ID then
               verify_loop accounts accountInfos (i + 1)
                 (res\<lparr>invalid := invalid res @
                    [\<lparr>inv_pubkey = pubkeyStr, inv_reason = ''Owner changed to '' @ ai_owner info,
                      inv_status = ''SKIPPED''\<rparr>]\<rparr>)
             else if ai_data_length info > 0 then
               verify_loop accounts accountInfos (i + 1)
                 (res\<lparr>invalid := invalid res @
                    [\<lparr>inv_pubkey = pubkeyStr,
                      inv_reason = ''Account has data len '' @ show_nat (ai_data_length info),
                      inv_status = ''SKIPPED''\<rparr>]\<rparr>)
             else
               verify_loop accounts accountInfos (i + 1)
                 (res\<lparr>valid := valid res @
                    [\<lparr>va_account_pubkey = pubkeyStr, va_lamports = ra_lamports acc,
                      verifiedLamports = ai_lamports info\<rparr>]\<rparr>))
      else res)"
  by pat_completeness auto
termination
  by (relation "measure (\<lambda>(accounts, accountInfos, i, res). length accounts - i)") auto

declare verify_loop.simps [simp del]

definition verify ::
    "(string \<Rightarrow> bool) \<Rightarrow> (string list \<Rightarrow> rpc_error + AccountInfo option list)
      \<Rightarrow> ReclaimableAccount list \<Rightarrow> rpc_error + VerificationResult" where
  "verify isPubkey getMultipleAccountsInfo accounts =
     (if accounts = [] then Inr \<lparr>valid = [], invalid = []\<rparr>
      else case find (\<lambda>a. \<not> isPubkey (ra_account_pubkey a)) accounts of
             Some bad \<Rightarrow> Inl (InvalidPublicKey (ra_account_pubkey bad))
           | None \<Rightarrow>
              (case getMultipleAccountsInfo (map ra_account_pubkey accounts) of
                 Inl e \<Rightarrow> Inl e
               | Inr accountInfos \<Rightarrow>
                   Inr (verify_loop accounts accountInfos 0 \<lparr>valid = [], invalid = []\<rparr>)))"

text \<open>
  The rule of the specification, written from its words: the five cases in order, for
  one chain answer.
\<close>

datatype jit_outcome = Closed_zero | Skipped | Verified int

definition jit_rule :: "AccountInfo option \<Rightarrow> jit_outcome" where
  "jit_rule answer =
     (case answer of
        None \<Rightarrow> Closed_zero
      | Some info \<Rightarrow>
          if ai_lamports info = 0 then Closed_zero
          else if ai_owner info \<noteq> ''11111111111111111111111111111111'' then Skipped
          else if ai_data_length info > 0 then Skipped
          else Verified (ai_lamports info))"

definition jit_valid :: "ReclaimableAccount \<Rightarrow> AccountInfo option \<Rightarrow> VerifiedAccount option" where
  "jit_valid acc answer =
     (case jit_rule answer of
        Verified l \<Rightarrow> Some \<lparr>va_account_pubkey = ra_account_pubkey acc,
                             va_lamports = ra_lamports acc, verifiedLamports = l\<rparr>
      | _ \<Rightarrow> None)"

definition jit_invalid :: "ReclaimableAccount \<Rightarrow> AccountInfo option \<Rightarrow> (string \<times> string) option" where
  "jit_invalid acc answer =
     (case jit_rule answer of
        Closed_zero \<Rightarrow> Some (ra_account_pubkey acc, ''closed_zero'')
      | Skipped \<Rightarrow> Some (ra_account_pubkey acc, ''SKIPPED'')
      | Verified _ \<Rightarrow> None)"

definition chain_answers :: "nat \<Rightarrow> AccountInfo option list \<Rightarrow> AccountInfo option list" where
  "chain_answers n accountInfos = map (info_at accountInfos) [0..<n]"

text \<open>A batch that meets each of the five cases once, with the chain's answers.\<close>

definition jit_batch :: "ReclaimableAccount list" where
  "jit_batch = map (\<lambda>pk. \<lparr>ra_account_pubkey = pk, ra_lamports = Some 2000000\<rparr>)
                 [''A1'', ''A2'', ''A3'', ''A4'', ''A5'']"

definition jit_chain :: "AccountInfo option list" where
  "jit_chain =
     [None,
      Some \<lparr>ai_lamports = 0, ai_owner = SYSTEM_PROGRAM_ID, ai_data_length = 0, ai_executable = False\<rparr>,
      Some \<lparr>ai_lamports = 5, ai_owner = ''TokenkegQfeZyiNwAJbNbGKPFXCWuBvf9Ss623VQ5DA'',
            ai_data_length = 165, ai_executable = False\<rparr>,
      Some \<lparr>ai_lamports = 5, ai_owner = SYSTEM_PROGRAM_ID, ai_data_length = 3, ai_executable = False\<rparr>,
      Some \<lparr>ai_lamports = 890880, ai_owner = SYSTEM_PROGRAM_ID, ai_data_length = 0,
            ai_executable = False\<rparr>]"

section \<open>Structured values, \<^verbatim>\<open>canonicalize\<close> and \<^verbatim>\<open>JSON.stringify\<close>\<close>

text \<open>
  The values the attestation code serializes: null, booleans, integer-valued numbers,
  strings, arrays and objects.  An object is the list of its own properties in
  JavaScript's enumeration order.  A value read from an object literal or from
  \<^verbatim>\<open>JSON.parse\<close> has each key once; where a list repeats a key, the first entry is
  the property (\<open>js_get\<close>) and \<open>js_keys\<close> lists each key once.
\<close>

datatype json =
    JNull
  | JBool bool
  | JNum int
  | JStr string
  | JArr "json list"
  | JObj "(string \<times> json) list"

type_synonym props = "(string \<times> json) list"

definition js_keys :: "props \<Rightarrow> string list" where
  "js_keys ps = remdups (map fst ps)"

definition js_get :: "props \<Rightarrow> string \<Rightarrow> json option" where
  "js_get ps key = map_of ps key"

text \<open>
  \<^verbatim>\<open>acc[key] = v\<close> on an ordinary object.  An existing property keeps its place.  A new
  key that is an array index (a canonical decimal numeral below \<open>2^32 - 1\<close>) is
  enumerated in ascending numeric order before all other keys; any other new key goes
  last.  Assigning to \<^verbatim>\<open>__proto__\<close> calls the inherited setter and creates no own
  property.
\<close>

definition is_digit :: "char \<Rightarrow> bool" where
  "is_digit c = (c \<in> set ''0123456789'')"

definition index_value :: "string \<Rightarrow> nat" where
  "index_value s = foldl (\<lambda>n c. 10 * n + (of_char c - 48)) 0 s"

definition is_array_index :: "string \<Rightarrow> bool" where
  "is_array_index s =
     (s \<noteq> [] \<and> list_all is_digit s \<and> (hd s \<noteq> CHR ''0'' \<or> s = ''0'') \<and>
      index_value s < 4294967295)"

fun insert_index :: "string \<Rightarrow> json \<Rightarrow> props \<Rightarrow> props" where
  "insert_index k v [] = [(k, v)]"
| "insert_index k v (p # ps) =
     (if is_array_index (fst p) \<and> index_value (fst p) < index_value k
      then p # insert_index k v ps else (k, v) # p # ps)"

definition js_set :: "props \<Rightarrow> string \<Rightarrow> json \<Rightarrow> props" where
  "js_set acc key v =
     (if key = ''__proto__'' then acc
      else if key \<in> fst ` set acc then map (\<lambda>p. if fst p = key then (key, v) else p) acc
      else if is_array_index key then insert_index key v acc
      else acc @ [(key, v)])"

lemma size_js_get:
  "map_of ps key = Some v \<Longrightarrow> size v \<le> size_list (size_prod (\<lambda>_. 0) size) ps"
  by (induction ps) (auto split: if_splits)

text \<open>
  \<^verbatim>\<open>canonicalize\<close> of \<^verbatim>\<open>attestation/utils.ts\<close>: an array is mapped elementwise; an
  object is rebuilt by assigning its properties to a fresh object in the order of
  \<^verbatim>\<open>Object.keys(obj).sort()\<close>; anything else is returned as it is.
\<close>

function canonicalize :: "json \<Rightarrow> json" where
  "canonicalize (JArr xs) = JArr (map canonicalize xs)"
| "canonicalize (JObj ps) =
     JObj (foldl (\<lambda>acc key. case js_get ps key of
                                Some v \<Rightarrow> js_set acc key (canonicalize v)
                              | None \<Rightarrow> acc)
                 [] (sort (js_keys ps)))"
| "canonicalize JNull = JNull"
| "canonicalize (JBool b) = JBool b"
| "canonicalize (JNum n) = JNum n"
| "canonicalize (JStr s) = JStr s"
  by pat_completeness auto
termination
  by (relation "measure size")
     (auto simp: js_get_def size_js_get less_Suc_eq_le intro: size_list_estimation')

text \<open>
  \<^verbatim>\<open>JSON.stringify\<close> without indentation.  Strings are quoted with the escapes of
  ECMAScript's QuoteJSONString.  A number is rendered by \<open>Number_toString\<close>.
\<close>

definition hex_digit :: "nat \<Rightarrow> char" where
  "hex_digit n = ''0123456789abcdef'' ! (n mod 16)"

definition escape_char :: "char \<Rightarrow> string" where
  "escape_char c =
     (if c = CHR 0x22 then [CHR 0x5C, CHR 0x22]
      else if c = CHR 0x5C then [CHR 0x5C, CHR 0x5C]
      else if c = CHR 0x08 then [CHR 0x5C, CHR ''b'']
      else if c = CHR 0x0C then [CHR 0x5C, CHR ''f'']
      else if c = CHR 0x0A then [CHR 0x5C, CHR ''n'']
      else if c = CHR 0x0D then [CHR 0x5C, CHR ''r'']
      else if c = CHR 0x09 then [CHR 0x5C, CHR ''t'']
      else if (of_char c :: nat) < 32
        then [CHR 0x5C, CHR ''u'', CHR ''0'', CHR ''0'',
              hex_digit (of_char c div 16), hex_digit (of_char c)]
      else [c])"

definition quote :: "string \<Rightarrow> string" where
  "quote s = CHR 0x22 # concat (map escape_char s) @ [CHR 0x22]"

fun join_comma :: "string list \<Rightarrow> string" where
  "join_comma [] = []"
| "join_comma [x] = x"
| "join_comma (x # y # ys) = x @ '','' @ join_comma (y # ys)"

fun JSON_stringify :: "json \<Rightarrow> string" where
  "JSON_stringify JNull = ''null''"
| "JSON_stringify (JBool b) = (if b then ''true'' else ''false'')"
| "JSON_stringify (JNum n) = Number_toString n"
| "JSON_stringify (JStr s) = quote s"
| "JSON_stringify (JArr xs) = ''['' @ join_comma (map JSON_stringify xs) @ '']''"
| "JSON_stringify (JObj ps) =
     ''{'' @ join_comma (map (\<lambda>p. quote (fst p) @ '':'' @ JSON_stringify (snd p)) ps) @ ''}''"

text \<open>
  Two values are structurally equivalent when they are the same atom, arrays of
  pairwise equivalent elements, or objects with the same keys whose values under each
  key are equivalent, in whatever order the properties were inserted.
\<close>

inductive struct_equiv :: "json \<Rightarrow> json \<Rightarrow> bool" where
  eq_null: "struct_equiv JNull JNull"
| eq_bool: "struct_equiv (JBool b) (JBool b)"
| eq_num: "struct_equiv (JNum n) (JNum n)"
| eq_str: "struct_equiv (JStr s) (JStr s)"
| eq_arr: "list_all2 struct_equiv xs ys \<Longrightarrow> struct_equiv (JArr xs) (JArr ys)"
| eq_obj: "set (map fst ps) = set (map fst qs) \<Longrightarrow>
           (\<forall>k v w. js_get ps k = Some v \<longrightarrow> js_get qs k = Some w \<longrightarrow> struct_equiv v w) \<Longrightarrow>
           struct_equiv (JObj ps) (JObj qs)"

text \<open>The assignments of the \<^verbatim>\<open>reduce\<close> in \<^verbatim>\<open>canonicalize\<close>, for any value under each key.\<close>

definition assign_all :: "(string \<Rightarrow> json option) \<Rightarrow> props \<Rightarrow> string list \<Rightarrow> props" where
  "assign_all g acc ks =
     foldl (\<lambda>acc key. case g key of Some v \<Rightarrow> js_set acc key v | None \<Rightarrow> acc) acc ks"

text \<open>Two objects with the same properties, inserted in different orders.\<close>

definition doc_one :: json where
  "doc_one = JObj [(''9'', JBool True), (''10'', JNull), (''version'', JStr ''1.0.0''),
                   (''config'', JObj [(''min_lamports'', JNum 1000), (''min_age_days'', JNum 0)]),
                   (''candidates'', JArr [JStr ''B'', JStr ''A''])]"

definition doc_two :: json where
  "doc_two = JObj [(''9'', JBool True), (''10'', JNull), (''candidates'', JArr [JStr ''B'', JStr ''A'']),
                   (''config'', JObj [(''min_age_days'', JNum 0), (''min_lamports'', JNum 1000)]),
                   (''version'', JStr ''1.0.0'')]"

text \<open>
  The value found inside a structured value by following own property names and array
  indexes.
\<close>

datatype step = Key string | Index nat

fun value_at :: "json \<Rightarrow> step list \<Rightarrow> json option" where
  "value_at v [] = Some v"
| "value_at v (Key k # path) =
     (case v of
        JObj ps \<Rightarrow> (case js_get ps k of Some w \<Rightarrow> value_at w path | None \<Rightarrow> None)
      | _ \<Rightarrow> None)"
| "value_at v (Index i # path) =
     (case v of
        JArr xs \<Rightarrow> (if i < length xs then value_at (xs ! i) path else None)
      | _ \<Rightarrow> None)"

text \<open>A manifest-like value with numbers beyond \<open>2^53\<close> inside an object and an array.\<close>

definition doc_large :: json where
  "doc_large = JObj [(''result'', JObj [(''lamports'', JNum 9007199254740994), (''fee'', JNum 5000)]),
                     (''balances'', JArr [JNum 1, JNum 18446744073709551616])]"

section \<open>Policy Engine\<close>

text \<open>
  \<^verbatim>\<open>PolicyEngine\<close> of \<^verbatim>\<open>core/policy.ts\<close>.  The wall clock (\<open>now\<close>, in milliseconds), the
  parser of \<^verbatim>\<open>new Date(text)\<close> (\<open>None\<close> for an invalid date) and the text SQLite stores
  for \<^verbatim>\<open>CURRENT_TIMESTAMP\<close> are parameters.  The age test divides by the
  milliseconds of a day and compares with \<^verbatim>\<open>minAgeDays\<close>; the model compares the
  products, which agrees for every age a ledger can hold.  The reason of a decision
  without a new state embeds a rounded float in the source and is never read; the
  model keeps its fixed part.  Writes to \<^verbatim>\<open>audit_log\<close> are outside the two tables.
  The rows of the candidate query are what the driver returns: stored integers as
  doubles.
\<close>

record PolicyConfig =
  pc_dbPath :: string
  pc_dryRun :: bool
  minLamports :: "int option"
  minAgeDays :: "int option"
  whitelist :: "string list option"

record Eligibility =
  newState :: "string option"
  reason :: string

definition checkEligibility ::
    "PolicyConfig \<Rightarrow> (string \<Rightarrow> int option) \<Rightarrow> int \<Rightarrow> SponsoredAccount \<Rightarrow> Eligibility" where
  "checkEligibility config Date_parse now account =
     (if (case whitelist config of Some wl \<Rightarrow> account_pubkey account \<in> set wl | None \<Rightarrow> False)
        then \<lparr>newState = Some ''PROTECTED'', reason = ''Whitelisted''\<rparr>
      else if lamports account = None \<or> owner_program account = None
        then \<lparr>newState = Some ''SKIPPED'',
              reason = ''Missing lifecycle data (Account might simply be closed/null already)''\<rparr>
      else if owner_program account \<noteq> Some ''11111111111111111111111111111111''
        then \<lparr>newState = Some ''SKIPPED'',
              reason = ''Owner is not System Program (Owner: '' @ the (owner_program account) @ '')''\<rparr>
      else if (case data_len account of Some d \<Rightarrow> d \<noteq> 0 \<and> d > 0 | None \<Rightarrow> False)
        then \<lparr>newState = Some ''SKIPPED'',
              reason = ''Account has data ('' @ Number_toString (the (data_len account)) @ '' bytes)''\<rparr>
      else
        (let balance = (case lamports account of Some l \<Rightarrow> l | None \<Rightarrow> 0);
             minLamports = (case minLamports config of Some m \<Rightarrow> m | None \<Rightarrow> 0)
         in if balance < minLamports
              then \<lparr>newState = Some ''DUST'',
                    reason = ''Balance '' @ Number_toString balance @ '' < Min '' @ Number_toString minLamports\<rparr>
            else if balance \<le> 0
              then \<lparr>newState = Some ''SKIPPED'', reason = ''0 Balance''\<rparr>
            else
              (case minAgeDays config of
                 None \<Rightarrow> \<lparr>newState = Some ''RECLAIMABLE'',
                           reason = ''Passes all safety & eligibility rules''\<rparr>
               | Some days \<Rightarrow>
                   if days \<noteq> 0 \<and> days > 0 then
                     (if last_lifecycle_check account = None \<or> last_lifecycle_check account = Some []
                        then \<lparr>newState = Some ''SKIPPED'',
                              reason = ''No age data (run lifecycle scan first)''\<rparr>
                      else
                        (case Date_parse (the (last_lifecycle_check account)) of
                           Some lastCheck \<Rightarrow>
                             if now - lastCheck < days * (1000 * 60 * 60 * 24)
                               then \<lparr>newState = None, reason = ''Age below Min''\<rparr>
                             else \<lparr>newState = Some ''RECLAIMABLE'',
                                   reason = ''Passes all safety & eligibility rules''\<rparr>
                         | None \<Rightarrow> \<lparr>newState = Some ''RECLAIMABLE'',
                                     reason = ''Passes all safety & eligibility rules''\<rparr>))
                   else \<lparr>newState = Some ''RECLAIMABLE'',
                         reason = ''Passes all safety & eligibility rules''\<rparr>)))"

definition config_json :: "PolicyConfig \<Rightarrow> json" where
  "config_json config =
     JObj ([(''dbPath'', JStr (pc_dbPath config)), (''dryRun'', JBool (pc_dryRun config))]
           @ (case minLamports config of Some m \<Rightarrow> [(''minLamports'', JNum m)] | None \<Rightarrow> [])
           @ (case minAgeDays config of Some d \<Rightarrow> [(''minAgeDays'', JNum d)] | None \<Rightarrow> [])
           @ (case whitelist config of Some wl \<Rightarrow> [(''whitelist'', JArr (map JStr wl))] | None \<Rightarrow> []))"

definition next_event_id :: "LifecycleEvent list \<Rightarrow> int" where
  "next_event_id evs = fold max (map event_id evs) 0 + 1"

definition insert_event ::
    "string \<Rightarrow> string \<Rightarrow> string \<Rightarrow> string \<Rightarrow> string \<Rightarrow> string option \<Rightarrow> Ledger \<Rightarrow> Ledger" where
  "insert_event clock pubkey oldState newSt why payload db =
     db\<lparr>lifecycle_events := lifecycle_events db @
           [\<lparr>event_id = next_event_id (lifecycle_events db), ev_account_pubkey = pubkey,
             old_state = oldState, new_state = newSt, trigger_reason = why,
             evidence_payload = payload, ev_timestamp = Some clock\<rparr>]\<rparr>"

definition updateState ::
    "PolicyConfig \<Rightarrow> string \<Rightarrow> string \<Rightarrow> string \<Rightarrow> string \<Rightarrow> string \<Rightarrow> Ledger \<Rightarrow> Ledger" where
  "updateState config clock pubkey oldState newSt why db =
     (if pc_dryRun config then db
      else insert_event clock pubkey oldState newSt (''Policy: '' @ why)
             (Some (JSON_stringify (JObj [(''config'', config_json config)])))
             (db\<lparr>sponsored_accounts :=
                   map (\<lambda>r. if account_pubkey r = pubkey then r\<lparr>lifecycle_state := newSt\<rparr> else r)
                       (sponsored_accounts db)\<rparr>))"

definition driver_row :: "SponsoredAccount \<Rightarrow> SponsoredAccount" where
  "driver_row r = r\<lparr>slot := to_double (slot r), lamports := map_option to_double (lamports r),
                     data_len := map_option to_double (data_len r)\<rparr>"

definition policy_candidates :: "Ledger \<Rightarrow> SponsoredAccount list" where
  "policy_candidates db =
     map driver_row
       (sort_key account_pubkey
          (filter (\<lambda>r. lifecycle_state r \<notin> {''RECLAIMABLE'', ''reclaimed'', ''closed_zero''})
                  (sponsored_accounts db)))"

definition evaluate_step ::
    "PolicyConfig \<Rightarrow> (string \<Rightarrow> int option) \<Rightarrow> int \<Rightarrow> string \<Rightarrow> SponsoredAccount \<Rightarrow> Ledger \<Rightarrow> Ledger" where
  "evaluate_step config Date_parse now clock account db =
     (let decision = checkEligibility config Date_parse now account in
      case newState decision of
        Some ns \<Rightarrow>
          if ns \<noteq> [] \<and> ns \<noteq> lifecycle_state account
          then updateState config clock (account_pubkey account) (lifecycle_state account) ns
                 (reason decision) db
          else db
      | None \<Rightarrow> db)"

definition evaluate ::
    "PolicyConfig \<Rightarrow> (string \<Rightarrow> int option) \<Rightarrow> int \<Rightarrow> string \<Rightarrow> Ledger \<Rightarrow> Ledger" where
  "evaluate config Date_parse now clock db =
     fold (evaluate_step config Date_parse now clock) (policy_candidates db) db"

text \<open>
  An account the Reclaimer has emptied: \<^verbatim>\<open>recordSuccess\<close> wrote the state
  \<^verbatim>\<open>'RECLAIMED'\<close>, zero lamports and the event of the reclamation.
\<close>

definition reclaimed_ledger :: Ledger where
  \<open>reclaimed_ledger =
     \<lparr>sponsored_accounts =
        [(reclaimable_row ''B'' 0)\<lparr>lifecycle_state := ''RECLAIMED''\<rparr>],
      lifecycle_events =
        [\<lparr>event_id = 1, ev_account_pubkey = ''B'', old_state = ''RECLAIMABLE'',
          new_state = ''RECLAIMED'', trigger_reason = ''Reclamation Success'',
          evidence_payload = Some ''{"signature":"tx_B","batchTotal":2000000}'',
          ev_timestamp = Some ''2024-01-03 00:00:00''\<rparr>]\<rparr>\<close>

definition default_policy :: PolicyConfig where
  "default_policy = \<lparr>pc_dbPath = ''kora-rent-devnet.db'', pc_dryRun = False,
                     minLamports = Some 0, minAgeDays = Some 0, whitelist = Some []\<rparr>"

section \<open>Indexer\<close>

text \<open>
  \<^verbatim>\<open>Indexer.run\<close> of \<^verbatim>\<open>core/indexer.ts\<close>.  The chain is two parameters:
  \<^verbatim>\<open>getSignaturesForAddress\<close> with its \<open>limit\<close>, \<open>until\<close> and \<open>before\<close> options, answering
  with signatures newest first, and \<^verbatim>\<open>getParsedTransaction\<close>; either may throw, which
  the \<^verbatim>\<open>catch\<close> of the loop turns into the end of the run, with the accounts stored
  before the exception kept.  The state is the cursor
  row of \<^verbatim>\<open>system_kv_store\<close>, the discovered accounts, and a record of every value
  \<^verbatim>\<open>saveCursor\<close> wrote during the run.  The \<^verbatim>\<open>while\<close> loop runs as long as the chain
  returns non-empty pages, so the model takes fuel and returns \<open>None\<close> when it runs out.
\<close>

record IndexerConfig =
  operator :: string
  ix_dryRun :: bool

record Instruction =
  ins_parsed :: bool
  ins_programId :: string
  ins_type :: "string option"
  ins_from :: string
  ins_newAccount :: string

record ParsedTransaction =
  tx_accountKeys :: "(string \<times> bool) list"
  tx_instructions :: "Instruction list"
  tx_signatures :: "string list"
  tx_slot :: int

record IndexerState =
  cursor :: "string option"
  discovered :: "SponsoredAccount list"
  cursor_writes :: "string list"

definition SIGNATURE_FETCH_LIMIT :: nat where
  "SIGNATURE_FETCH_LIMIT = 100"

definition getCursor :: "IndexerState \<Rightarrow> string option" where
  "getCursor st = cursor st"

definition saveCursor :: "IndexerConfig \<Rightarrow> string \<Rightarrow> IndexerState \<Rightarrow> IndexerState" where
  "saveCursor config signature st =
     (if ix_dryRun config then st
      else st\<lparr>cursor := Some signature, cursor_writes := cursor_writes st @ [signature]\<rparr>)"

definition storeSponsoredAccount ::
    "IndexerConfig \<Rightarrow> string \<Rightarrow> string \<Rightarrow> string option \<Rightarrow> int \<Rightarrow> IndexerState \<Rightarrow> IndexerState" where
  "storeSponsoredAccount config clock newAccount creation sl st =
     (if ix_dryRun config then st
      else case creation of
             None \<Rightarrow> st
           | Some sig \<Rightarrow>
               if newAccount \<in> account_pubkey ` set (discovered st) then st
               else st\<lparr>discovered := discovered st @
                      [\<lparr>account_pubkey = newAccount, creation_signature = sig, slot = sl,
                        discovered_at = Some clock, operator_pubkey = operator config,
                        lifecycle_state = ''DISCOVERED'', lamports = None, data_len = None,
                        owner_program = None, last_lifecycle_check = None,
                        processing_lock = None\<rparr>]\<rparr>)"

definition parseTransaction ::
    "IndexerConfig \<Rightarrow> string \<Rightarrow> ParsedTransaction \<Rightarrow> IndexerState \<Rightarrow> string + IndexerState" where
  "parseTransaction config clock tx st =
     (case tx_accountKeys tx of
        [] \<Rightarrow> Inl ''TypeError''
      | (feePayer, signer) # _ \<Rightarrow>
          if \<not> signer \<or> feePayer \<noteq> operator config then Inr st
          else Inr (fold (\<lambda>instruction st.
                      if ins_parsed instruction \<and> ins_programId instruction = SYSTEM_PROGRAM_ID
                         \<and> ins_type instruction = Some ''createAccount''
                         \<and> ins_from instruction = operator config
                      then storeSponsoredAccount config clock (ins_newAccount instruction)
                             (case tx_signatures tx of [] \<Rightarrow> None | s # _ \<Rightarrow> Some s)
                             (tx_slot tx) st
                      else st)
                    (tx_instructions tx) st))"

fun process_signatures ::
    "IndexerConfig \<Rightarrow> string \<Rightarrow> (string \<Rightarrow> string + ParsedTransaction option)
      \<Rightarrow> string list \<Rightarrow> IndexerState \<Rightarrow> (string \<times> IndexerState) + IndexerState" where
  "process_signatures config clock getParsedTransaction [] st = Inr st"
| "process_signatures config clock getParsedTransaction (sig # sigs) st =
     (case getParsedTransaction sig of
        Inl e \<Rightarrow> Inl (e, st)
      | Inr None \<Rightarrow> process_signatures config clock getParsedTransaction sigs st
      | Inr (Some tx) \<Rightarrow>
          (case parseTransaction config clock tx st of
             Inl e \<Rightarrow> Inl (e, st)
           | Inr st1 \<Rightarrow> process_signatures config clock getParsedTransaction sigs st1))"

fun run_loop ::
    "nat \<Rightarrow> IndexerConfig \<Rightarrow> string
      \<Rightarrow> (nat \<Rightarrow> string option \<Rightarrow> string option \<Rightarrow> string + string list)
      \<Rightarrow> (string \<Rightarrow> string + ParsedTransaction option)
      \<Rightarrow> string option \<Rightarrow> string option \<Rightarrow> IndexerState \<Rightarrow> IndexerState option" where
  "run_loop 0 config clock getSignaturesForAddress getParsedTransaction
       untilSignature beforeSignature st = None"
| "run_loop (Suc fuel) config clock getSignaturesForAddress getParsedTransaction
       untilSignature beforeSignature st =
     (case getSignaturesForAddress SIGNATURE_FETCH_LIMIT untilSignature beforeSignature of
        Inl e \<Rightarrow> Some st
      | Inr [] \<Rightarrow> Some st
      | Inr (s # rest) \<Rightarrow>
          (let signatures = s # rest;
               latestInBatch = hd signatures;
               oldestInBatch = last signatures
           in case process_signatures config clock getParsedTransaction signatures st of
                Inl (e, st1) \<Rightarrow> Some st1
              | Inr st1 \<Rightarrow>
                  run_loop fuel config clock getSignaturesForAddress getParsedTransaction
                    untilSignature (Some oldestInBatch)
                    (if untilSignature = None \<or> untilSignature = Some []
                     then saveCursor config latestInBatch st1 else st1)))"

definition run ::
    "nat \<Rightarrow> IndexerConfig \<Rightarrow> string
      \<Rightarrow> (nat \<Rightarrow> string option \<Rightarrow> string option \<Rightarrow> string + string list)
      \<Rightarrow> (string \<Rightarrow> string + ParsedTransaction option)
      \<Rightarrow> IndexerState \<Rightarrow> IndexerState option" where
  "run fuel config clock getSignaturesForAddress getParsedTransaction st =
     run_loop fuel config clock getSignaturesForAddress getParsedTransaction
       (getCursor st) None (st\<lparr>cursor_writes := []\<rparr>)"

text \<open>
  A chain with a finite history, newest signature first: the answer holds at most
  \<open>limit\<close> signatures, those after \<open>before\<close> and ahead of \<open>until\<close>.
\<close>

definition chain_signatures ::
    "string list \<Rightarrow> nat \<Rightarrow> string option \<Rightarrow> string option \<Rightarrow> string + string list" where
  "chain_signatures history limit until before =
     Inr (take limit
           (takeWhile (\<lambda>s. Some s \<noteq> until)
              (case before of
                 None \<Rightarrow> history
               | Some b \<Rightarrow> drop 1 (dropWhile (\<lambda>s. s \<noteq> b) history))))"

text \<open>An operator with 101 transactions, \<^verbatim>\<open>sig101\<close> the newest and \<^verbatim>\<open>sig1\<close> the oldest.\<close>

definition history_101 :: "string list" where
  "history_101 = map (\<lambda>n. ''sig'' @ show_nat n) (rev [1..<102])"

definition fresh_indexer :: IndexerState where
  "fresh_indexer = \<lparr>cursor = None, discovered = [], cursor_writes = []\<rparr>"

section \<open>Libraries outside the repository\<close>

text \<open>
  Bytes are 8-bit words; \<^verbatim>\<open>hasher.update(text)\<close> and \<^verbatim>\<open>Buffer\<close> see a string as its
  UTF-8 bytes: one byte for a character below 128, two for the others.  The functions of the Node
  runtime and of the npm packages that the attestation code calls are the fields of
  one record, so that every theorem holds for whatever these functions compute:
  SHA-256 (\<^verbatim>\<open>crypto\<close>), the detached Ed25519 signature of \<^verbatim>\<open>tweetnacl\<close> (the size checks
  in front of it are part of the model), the base58 and base64 codecs, the WHATWG
  URL parser (protocol and host, \<open>None\<close> when it throws), \<^verbatim>\<open>JSON.parse\<close> (\<open>None\<close> when it
  throws), the conversion \<^verbatim>\<open>BigInt(text)\<close> (\<open>None\<close> when it throws) and
  \<^verbatim>\<open>String.prototype.localeCompare\<close>.
\<close>

type_synonym byte = "8 word"

record Libs =
  lib_sha256 :: "byte list \<Rightarrow> byte list"
  lib_sign_detached :: "byte list \<Rightarrow> byte list \<Rightarrow> byte list"
  lib_verify_detached :: "byte list \<Rightarrow> byte list \<Rightarrow> byte list \<Rightarrow> bool"
  lib_bs58_decode :: "string \<Rightarrow> byte list option"
  lib_bs58_encode :: "byte list \<Rightarrow> string"
  lib_base64_encode :: "byte list \<Rightarrow> string"
  lib_base64_decode :: "string \<Rightarrow> byte list"
  lib_URL :: "string \<Rightarrow> (string \<times> string) option"
  lib_JSON_parse :: "string \<Rightarrow> json option"
  lib_StringToBigInt :: "string \<Rightarrow> int option"
  lib_localeCompare :: "string \<Rightarrow> string \<Rightarrow> int"

definition utf8_char :: "char \<Rightarrow> byte list" where
  "utf8_char c =
     (if (of_char c :: nat) < 128 then [of_char c]
      else [of_nat (192 + of_char c div 64), of_nat (128 + of_char c mod 64)])"

definition utf8 :: "string \<Rightarrow> byte list" where
  "utf8 s = concat (map utf8_char s)"

definition hex :: "byte list \<Rightarrow> string" where
  "hex bs = concat (map (\<lambda>b. [hex_digit (unat b div 16), hex_digit (unat b mod 16)]) bs)"

section \<open>State Hasher\<close>

text \<open>
  \<^verbatim>\<open>StateHasher\<close> of \<^verbatim>\<open>attestation/state_hash.ts\<close>.  \<^verbatim>\<open>SELECT *\<close> gives each row as an
  object with one property per column, in the order of the columns, integers as
  doubles; \<^verbatim>\<open>processing_lock\<close>, where the table has it, was added last.  A
  \<^verbatim>\<open>crypto.Hash\<close> object is the bytes it was fed so far; \<^verbatim>\<open>digest()\<close> hashes them and
  \<^verbatim>\<open>digest('hex')\<close> renders that in lower-case hexadecimal.
\<close>

definition opt_json :: "('a \<Rightarrow> json) \<Rightarrow> 'a option \<Rightarrow> json" where
  "opt_json f x = (case x of None \<Rightarrow> JNull | Some y \<Rightarrow> f y)"

definition sponsored_row :: "bool \<Rightarrow> SponsoredAccount \<Rightarrow> json" where
  "sponsored_row lock_column r =
     JObj ([(''account_pubkey'', JStr (account_pubkey r)),
            (''creation_signature'', JStr (creation_signature r)),
            (''slot'', JNum (to_double (slot r))),
            (''discovered_at'', opt_json JStr (discovered_at r)),
            (''operator_pubkey'', JStr (operator_pubkey r)),
            (''lifecycle_state'', JStr (lifecycle_state r)),
            (''lamports'', opt_json JNum (map_option to_double (lamports r))),
            (''data_len'', opt_json JNum (map_option to_double (data_len r))),
            (''owner_program'', opt_json JStr (owner_program r)),
            (''last_lifecycle_check'', opt_json JStr (last_lifecycle_check r))]
           @ (if lock_column then [(''processing_lock'', opt_json JStr (processing_lock r))] else []))"

definition event_row :: "LifecycleEvent \<Rightarrow> json" where
  "event_row e =
     JObj [(''id'', JNum (to_double (event_id e))),
           (''account_pubkey'', JStr (ev_account_pubkey e)),
           (''old_state'', JStr (old_state e)),
           (''new_state'', JStr (new_state e)),
           (''trigger_reason'', JStr (trigger_reason e)),
           (''evidence_payload'', opt_json JStr (evidence_payload e)),
           (''timestamp'', opt_json JStr (ev_timestamp e))]"

definition createHash :: "byte list" where
  "createHash = []"

definition hash_update :: "byte list \<Rightarrow> byte list \<Rightarrow> byte list" where
  "hash_update hasher chunk = hasher @ chunk"

definition digest :: "Libs \<Rightarrow> byte list \<Rightarrow> byte list" where
  "digest libs hasher = lib_sha256 libs hasher"

definition hashTable :: "Libs \<Rightarrow> string \<Rightarrow> json list \<Rightarrow> string" where
  "hashTable libs tableName rows =
     (if length rows = 0
      then hex (digest libs (hash_update createHash (utf8 (tableName @ '':empty''))))
      else hex (digest libs
             (fold (\<lambda>row tableHasher.
                      hash_update tableHasher
                        (digest libs (hash_update createHash
                                        (utf8 (JSON_stringify (canonicalize row))))))
                   rows createHash)))"

definition computeStateHash :: "Libs \<Rightarrow> bool \<Rightarrow> Ledger \<Rightarrow> string" where
  "computeStateHash libs lock_column db =
     (let sponsoredHash = hashTable libs ''sponsored_accounts''
                            (map (sponsored_row lock_column)
                                 (sort_key account_pubkey (sponsored_accounts db)));
          lifecycleHash = hashTable libs ''lifecycle_events''
                            (map event_row (sort_key event_id (lifecycle_events db)))
      in hex (digest libs (hash_update (hash_update createHash (utf8 sponsoredHash))
                                       (utf8 lifecycleHash))))"

text \<open>
  The 32-byte digest of one table as the specification words it: the hash of
  \<^verbatim>\<open><table>:empty\<close> for an empty table, otherwise the hash of the row hashes in order.
\<close>

definition table_digest :: "Libs \<Rightarrow> string \<Rightarrow> json list \<Rightarrow> byte list" where
  "table_digest libs tableName rows =
     (if rows = [] then lib_sha256 libs (utf8 (tableName @ '':empty''))
      else lib_sha256 libs
             (concat (map (\<lambda>row. lib_sha256 libs (utf8 (JSON_stringify (canonicalize row)))) rows)))"

definition empty_ledger :: Ledger where
  "empty_ledger = \<lparr>sponsored_accounts = [], lifecycle_events = []\<rparr>"

section \<open>Result digest and manifest\<close>

text \<open>
  \<^verbatim>\<open>ResultBuilder\<close> of \<^verbatim>\<open>attestation/result.ts\<close> and \<^verbatim>\<open>ManifestBuilder\<close> of
  \<^verbatim>\<open>attestation/manifest.ts\<close>.  The \<^verbatim>\<open>accounts\<close> field is a JavaScript object filled by
  assignment.  \<^verbatim>\<open>Array.prototype.sort\<close> without a comparator orders by the string
  value of the elements; with a comparator it is the stable sort by that comparator.
\<close>

fun js_truthy :: "json \<Rightarrow> bool" where
  "js_truthy JNull = False"
| "js_truthy (JBool b) = b"
| "js_truthy (JNum n) = (n \<noteq> 0)"
| "js_truthy (JStr s) = (s \<noteq> [])"
| "js_truthy (JArr xs) = True"
| "js_truthy (JObj ps) = True"

fun js_ToString :: "json \<Rightarrow> string" where
  "js_ToString JNull = ''null''"
| "js_ToString (JBool b) = (if b then ''true'' else ''false'')"
| "js_ToString (JNum n) = Number_toString n"
| "js_ToString (JStr s) = s"
| "js_ToString (JArr xs) = join_comma (map (\<lambda>x. if x = JNull then [] else js_ToString x) xs)"
| "js_ToString (JObj ps) = ''[object Object]''"

definition js_prop :: "json \<Rightarrow> string \<Rightarrow> json option" where
  "js_prop v key = (case v of JObj ps \<Rightarrow> js_get ps key | _ \<Rightarrow> None)"

definition prop_truthy :: "json \<Rightarrow> string \<Rightarrow> bool" where
  "prop_truthy v key = (case js_prop v key of Some x \<Rightarrow> js_truthy x | None \<Rightarrow> False)"

definition BigInt :: "Libs \<Rightarrow> json \<Rightarrow> int option" where
  "BigInt libs v =
     (case v of
        JNum n \<Rightarrow> Some n
      | JBool b \<Rightarrow> Some (if b then 1 else 0)
      | JNull \<Rightarrow> None
      | _ \<Rightarrow> lib_StringToBigInt libs (js_ToString v))"

fun insert_by :: "('a \<Rightarrow> 'a \<Rightarrow> int) \<Rightarrow> 'a \<Rightarrow> 'a list \<Rightarrow> 'a list" where
  "insert_by cmp x [] = [x]"
| "insert_by cmp x (y # ys) = (if cmp x y \<le> 0 then x # y # ys else y # insert_by cmp x ys)"

definition sort_by :: "('a \<Rightarrow> 'a \<Rightarrow> int) \<Rightarrow> 'a list \<Rightarrow> 'a list" where
  "sort_by cmp xs = foldr (insert_by cmp) xs []"

record ResultBuilder =
  rb_accounts :: props
  totalLamports :: int
  rb_signatures :: "json list"
  rb_failures :: "(string \<times> string) list"

record ExecutionResultDigest =
  evaluated_count :: nat
  digest_accounts :: props
  total_lamports_reclaimed :: string
  transaction_signatures :: "json list"
  failures :: "(string \<times> string) list"

definition new_ResultBuilder :: ResultBuilder where
  "new_ResultBuilder = \<lparr>rb_accounts = [], totalLamports = 0, rb_signatures = [], rb_failures = []\<rparr>"

definition addResult :: "Libs \<Rightarrow> string \<Rightarrow> string \<Rightarrow> json \<Rightarrow> ResultBuilder \<Rightarrow> string + ResultBuilder" where
  "addResult libs pubkey state lamportsRecalimed rb =
     (case BigInt libs lamportsRecalimed of
        None \<Rightarrow> Inl ''BigInt''
      | Some amount \<Rightarrow>
          Inr (rb\<lparr>rb_accounts := js_set (rb_accounts rb) pubkey (JStr state),
                  totalLamports := totalLamports rb + amount\<rparr>))"

definition addSignature :: "json \<Rightarrow> ResultBuilder \<Rightarrow> ResultBuilder" where
  "addSignature sig rb = rb\<lparr>rb_signatures := rb_signatures rb @ [sig]\<rparr>"

definition addFailure :: "string \<Rightarrow> string \<Rightarrow> ResultBuilder \<Rightarrow> ResultBuilder" where
  "addFailure pubkey why rb = rb\<lparr>rb_failures := rb_failures rb @ [(pubkey, why)]\<rparr>"

definition build_result :: "Libs \<Rightarrow> ResultBuilder \<Rightarrow> ExecutionResultDigest" where
  "build_result libs rb =
     \<lparr>evaluated_count = length (js_keys (rb_accounts rb)),
      digest_accounts = rb_accounts rb,
      total_lamports_reclaimed = show_int (totalLamports rb),
      transaction_signatures = sort_key js_ToString (rb_signatures rb),
      failures = sort_by (\<lambda>a b. lib_localeCompare libs (fst a) (fst b)) (rb_failures rb)\<rparr>"

definition result_json :: "ExecutionResultDigest \<Rightarrow> json" where
  "result_json d =
     JObj [(''evaluated_count'', JNum (int (evaluated_count d))),
           (''accounts'', JObj (digest_accounts d)),
           (''total_lamports_reclaimed'', JStr (total_lamports_reclaimed d)),
           (''transaction_signatures'', JArr (transaction_signatures d)),
           (''failures'', JArr (map (\<lambda>f. JObj [(''pubkey'', JStr (fst f)), (''reason'', JStr (snd f))])
                                    (failures d)))]"

definition stringifyResult :: "ExecutionResultDigest \<Rightarrow> string" where
  "stringifyResult d = JSON_stringify (canonicalize (result_json d))"

record ExecutionManifest =
  m_version :: string
  m_network :: string
  m_operator_pubkey :: "string option"
  m_config :: props
  m_rpc_endpoint :: string
  m_db_state_hash :: string
  m_candidates :: "string list"

record ServiceConfig =
  MIN_LAMPORTS_RECLAIM :: "int option"
  MIN_AGE_DAYS :: "int option"
  whitelist_hash :: "string option"

definition sanitizeRpc :: "Libs \<Rightarrow> string \<Rightarrow> string" where
  "sanitizeRpc libs url =
     (case lib_URL libs url of
        Some (protocol, host) \<Rightarrow> protocol @ ''//'' @ host
      | None \<Rightarrow> ''unknown-rpc'')"

definition or_zero :: "int option \<Rightarrow> int" where
  "or_zero x = (case x of Some n \<Rightarrow> n | None \<Rightarrow> 0)"

definition build_manifest ::
    "Libs \<Rightarrow> string \<Rightarrow> ServiceConfig \<Rightarrow> string option \<Rightarrow> string \<Rightarrow> string \<Rightarrow> string list
      \<Rightarrow> ExecutionManifest" where
  "build_manifest libs network config operatorPubkey rpcEndpoint dbStateHash candidates =
     \<lparr>m_version = ''1.0.0'',
      m_network = network,
      m_operator_pubkey = operatorPubkey,
      m_config = [(''min_lamports'', JNum (or_zero (MIN_LAMPORTS_RECLAIM config))),
                  (''min_age_days'', JNum (or_zero (MIN_AGE_DAYS config))),
                  (''whitelist_hash'',
                     (case whitelist_hash config of
                        Some h \<Rightarrow> if h = [] then JNull else JStr h
                      | None \<Rightarrow> JNull))],
      m_rpc_endpoint = sanitizeRpc libs rpcEndpoint,
      m_db_state_hash = dbStateHash,
      m_candidates = sort (remdups candidates)\<rparr>"

definition manifest_json :: "ExecutionManifest \<Rightarrow> json" where
  "manifest_json m =
     JObj [(''version'', JStr (m_version m)),
           (''network'', JStr (m_network m)),
           (''operator_pubkey'', opt_json JStr (m_operator_pubkey m)),
           (''config'', JObj (m_config m)),
           (''rpc_endpoint'', JStr (m_rpc_endpoint m)),
           (''db_state_hash'', JStr (m_db_state_hash m)),
           (''candidates'', JArr (map JStr (m_candidates m)))]"

definition stringifyManifest :: "ExecutionManifest \<Rightarrow> string" where
  "stringifyManifest m = JSON_stringify (canonicalize (manifest_json m))"

section \<open>Attestor\<close>

text \<open>
  \<^verbatim>\<open>Attestor.generate\<close> and \<^verbatim>\<open>Attestor.verify\<close> of \<^verbatim>\<open>attestation/attestor.ts\<close>.
  \<^verbatim>\<open>nacl.sign.detached\<close> throws on a secret key that is not 64 bytes, which makes
  \<^verbatim>\<open>generate\<close> throw; \<^verbatim>\<open>bs58.decode\<close> and the size checks of
  \<^verbatim>\<open>nacl.sign.detached.verify\<close> throw inside the \<^verbatim>\<open>try\<close> of \<^verbatim>\<open>verify\<close>, which answers
  false.
\<close>

record Keypair =
  kp_publicKey :: "byte list"
  kp_secretKey :: "byte list"

record AttestationDoc =
  doc_manifest :: ExecutionManifest
  doc_db_state_hash :: string
  doc_result_digest :: ExecutionResultDigest
  attestation_hash :: string
  doc_signature :: "string option"

definition attestation_digest ::
    "Libs \<Rightarrow> ExecutionManifest \<Rightarrow> string \<Rightarrow> ExecutionResultDigest \<Rightarrow> byte list" where
  "attestation_digest libs manifest dbHash resultDigest =
     digest libs
       (hash_update (hash_update (hash_update createHash (utf8 (stringifyManifest manifest)))
                                 (utf8 dbHash))
                    (utf8 (stringifyResult resultDigest)))"

definition Attestor_generate ::
    "Libs \<Rightarrow> ExecutionManifest \<Rightarrow> ExecutionResultDigest \<Rightarrow> Keypair option
      \<Rightarrow> string + AttestationDoc" where
  "Attestor_generate libs manifest resultDigest operatorKeypair =
     (let dbHash = m_db_state_hash manifest;
          attestationHashBytes = attestation_digest libs manifest dbHash resultDigest
      in case operatorKeypair of
           None \<Rightarrow>
             Inr \<lparr>doc_manifest = manifest, doc_db_state_hash = dbHash,
                  doc_result_digest = resultDigest,
                  attestation_hash = hex attestationHashBytes, doc_signature = None\<rparr>
         | Some kp \<Rightarrow>
             if length (kp_secretKey kp) \<noteq> 64 then Inl ''bad secret key size''
             else
               Inr \<lparr>doc_manifest = manifest, doc_db_state_hash = dbHash,
                    doc_result_digest = resultDigest,
                    attestation_hash = hex attestationHashBytes,
                    doc_signature =
                      Some (lib_base64_encode libs
                              (lib_sign_detached libs attestationHashBytes (kp_secretKey kp)))\<rparr>)"


section \<open>Attestation Service\<close>

text \<open>
  \<^verbatim>\<open>AttestationService.generate\<close>.  The accounts are scanned in rowid order.
  \<^verbatim>\<open>.get()\<close> on the event queries returns the first matching row, the one with the
  lowest rowid.  A payload that does not parse, or that parses to \<^verbatim>\<open>null\<close>, throws
  inside the \<^verbatim>\<open>try\<close> and contributes nothing; the conversion of the amount by
  \<^verbatim>\<open>BigInt\<close> is outside it, so that its exception ends \<^verbatim>\<open>generate\<close>.
\<close>

definition first_event :: "LifecycleEvent list \<Rightarrow> string \<Rightarrow> string \<Rightarrow> LifecycleEvent option" where
  "first_event events pubkey st =
     find (\<lambda>e. ev_account_pubkey e = pubkey \<and> new_state e = st) events"

definition reclaim_payload :: "Libs \<Rightarrow> LifecycleEvent list \<Rightarrow> string \<Rightarrow> json option" where
  "reclaim_payload libs events pubkey =
     (case first_event events pubkey ''RECLAIMED'' of
        None \<Rightarrow> None
      | Some event \<Rightarrow>
          (case evidence_payload event of
             None \<Rightarrow> None
           | Some text \<Rightarrow>
               if text = [] then None
               else (case lib_JSON_parse libs text of
                       None \<Rightarrow> None
                     | Some payload \<Rightarrow> if payload = JNull then None else Some payload)))"

definition scan_account ::
    "Libs \<Rightarrow> LifecycleEvent list \<Rightarrow> SponsoredAccount \<Rightarrow> ResultBuilder \<Rightarrow> string + ResultBuilder" where
  "scan_account libs events row resultBuilder =
     (let payload = reclaim_payload libs events (account_pubkey row);
          reclaimedAmt =
            (case payload of
               Some p \<Rightarrow> if prop_truthy p ''amount'' then the (js_prop p ''amount'') else JNum 0
             | None \<Rightarrow> JNum 0);
          rb1 =
            (case payload of
               Some p \<Rightarrow> if prop_truthy p ''signature''
                         then addSignature (the (js_prop p ''signature'')) resultBuilder
                         else resultBuilder
             | None \<Rightarrow> resultBuilder)
      in case addResult libs (account_pubkey row) (lifecycle_state row) reclaimedAmt rb1 of
           Inl e \<Rightarrow> Inl e
         | Inr rb2 \<Rightarrow>
             if lifecycle_state row = ''FAILED'' then
               Inr (addFailure (account_pubkey row)
                      (case first_event events (account_pubkey row) ''FAILED'' of
                         Some failEvent \<Rightarrow>
                           if trigger_reason failEvent = [] then ''Unknown error''
                           else trigger_reason failEvent
                       | None \<Rightarrow> ''Unknown error'')
                      rb2)
             else Inr rb2)"

fun scan_accounts ::
    "Libs \<Rightarrow> LifecycleEvent list \<Rightarrow> SponsoredAccount list \<Rightarrow> ResultBuilder \<Rightarrow> string + ResultBuilder" where
  "scan_accounts libs events [] rb = Inr rb"
| "scan_accounts libs events (row # rows) rb =
     (case scan_account libs events row rb of
        Inl e \<Rightarrow> Inl e
      | Inr rb1 \<Rightarrow> scan_accounts libs events rows rb1)"

definition AttestationService_generate ::
    "Libs \<Rightarrow> bool \<Rightarrow> Ledger \<Rightarrow> string \<Rightarrow> ServiceConfig \<Rightarrow> Keypair option \<Rightarrow> string
      \<Rightarrow> string + AttestationDoc" where
  "AttestationService_generate libs lock_column db network config operatorKeypair rpcEndpoint =
     (let dbHash = computeStateHash libs lock_column db;
          candidateKeys = map account_pubkey (sponsored_accounts db)
      in case scan_accounts libs (lifecycle_events db) (sponsored_accounts db) new_ResultBuilder of
           Inl e \<Rightarrow> Inl e
         | Inr resultBuilder \<Rightarrow>
             Attestor_generate libs
               (build_manifest libs network config
                  (case operatorKeypair of
                     Some kp \<Rightarrow> Some (lib_bs58_encode libs (kp_publicKey kp))
                   | None \<Rightarrow> None)
                  rpcEndpoint dbHash candidateKeys)
               (build_result libs resultBuilder) operatorKeypair)"

section \<open>Instances of the libraries\<close>

text \<open>
  Where a theorem about every library is applied to concrete inputs, SHA-256 and
  base58 are computed by the functions below.  Ed25519, base64, the URL parser,
  \<^verbatim>\<open>BigInt(text)\<close> and \<^verbatim>\<open>localeCompare\<close> are not written out: the instance leaves
  them unspecified, and nothing stated about the instance depends on their values.
  Of \<^verbatim>\<open>JSON.parse\<close> the instance fixes the values on the evidence texts of the ledger it
  is applied to.
\<close>

subsection \<open>SHA-256\<close>

text \<open>
  SHA-256 as FIPS 180-4 defines it, on byte lists: the message is padded to a
  multiple of 64 bytes, each block extends to 64 words and runs 64 rounds on the
  eight working registers.  The round constants and the initial registers are
  written in decimal: the first is \<open>0x428a2f98\<close>.
\<close>

type_synonym u32 = "32 word"

type_synonym regs = "u32 \<times> u32 \<times> u32 \<times> u32 \<times> u32 \<times> u32 \<times> u32 \<times> u32"

definition K256 :: "u32 list" where
  "K256 = [
   1116352408, 1899447441, 3049323471, 3921009573, 961987163, 1508970993, 2453635748, 2870763221,
   3624381080, 310598401, 607225278, 1426881987, 1925078388, 2162078206, 2614888103, 3248222580,
   3835390401, 4022224774, 264347078, 604807628, 770255983, 1249150122, 1555081692, 1996064986,
   2554220882, 2821834349, 2952996808, 3210313671, 3336571891, 3584528711, 113926993, 338241895,
   666307205, 773529912, 1294757372, 1396182291, 1695183700, 1986661051, 2177026350, 2456956037,
   2730485921, 2820302411, 3259730800, 3345764771, 3516065817, 3600352804, 4094571909, 275423344,
   430227734, 506948616, 659060556, 883997877, 958139571, 1322822218, 1537002063, 1747873779,
   1955562222, 2024104815, 2227730452, 2361852424, 2428436474, 2756734187, 3204031479, 3329325298]"

definition H256 :: regs where
  "H256 = (1779033703, 3144134277, 1013904242, 2773480762,
           1359893119, 2600822924, 528734635, 1541459225)"

definition rotr :: "nat \<Rightarrow> u32 \<Rightarrow> u32" where
  "rotr n x = drop_bit n x OR push_bit (32 - n) x"

definition ssig0 :: "u32 \<Rightarrow> u32" where
  "ssig0 x = rotr 7 x XOR rotr 18 x XOR drop_bit 3 x"

definition ssig1 :: "u32 \<Rightarrow> u32" where
  "ssig1 x = rotr 17 x XOR rotr 19 x XOR drop_bit 10 x"

definition bsig0 :: "u32 \<Rightarrow> u32" where
  "bsig0 x = rotr 2 x XOR rotr 13 x XOR rotr 22 x"

definition bsig1 :: "u32 \<Rightarrow> u32" where
  "bsig1 x = rotr 6 x XOR rotr 11 x XOR rotr 25 x"

definition ch :: "u32 \<Rightarrow> u32 \<Rightarrow> u32 \<Rightarrow> u32" where
  "ch x y z = (x AND y) XOR (NOT x AND z)"

definition maj :: "u32 \<Rightarrow> u32 \<Rightarrow> u32 \<Rightarrow> u32" where
  "maj x y z = (x AND y) XOR (x AND z) XOR (y AND z)"

fun be32 :: "byte list \<Rightarrow> u32 list" where
  "be32 (a # b # c # d # r) =
     (push_bit 24 (ucast a) OR push_bit 16 (ucast b) OR push_bit 8 (ucast c) OR ucast d) # be32 r"
| "be32 _ = []"

definition be64 :: "64 word \<Rightarrow> byte list" where
  "be64 w = map (\<lambda>i. ucast (drop_bit (8 * (7 - i)) w)) [0..<8]"

definition sha_pad :: "byte list \<Rightarrow> byte list" where
  "sha_pad m =
     m @ [0x80] @ replicate ((119 - length m mod 64) mod 64) 0 @ be64 (word_of_nat (8 * length m))"

fun blocks :: "nat \<Rightarrow> byte list \<Rightarrow> byte list list" where
  "blocks 0 bs = []"
| "blocks (Suc n) bs = take 64 bs # blocks n (drop 64 bs)"

definition next_w :: "u32 list \<Rightarrow> u32" where
  "next_w w = ssig1 (w ! 14) + (w ! 9) + ssig0 (w ! 1) + (w ! 0)"

fun schedule :: "nat \<Rightarrow> u32 list \<Rightarrow> u32 list" where
  "schedule 0 w = []"
| "schedule (Suc n) w = hd w # schedule n (tl w @ [next_w w])"

definition shift_regs :: "u32 \<Rightarrow> u32 \<Rightarrow> regs \<Rightarrow> regs" where
  "shift_regs t1 t2 s = (case s of (a, b, c, d, e, f, g, h) \<Rightarrow> (t1 + t2, a, b, c, d + t1, e, f, g))"

definition round1 :: "u32 \<Rightarrow> u32 \<Rightarrow> regs \<Rightarrow> regs" where
  "round1 k w s =
     (case s of (a, b, c, d, e, f, g, h) \<Rightarrow>
        shift_regs (h + bsig1 e + ch e f g + k + w) (bsig0 a + maj a b c) s)"

fun rounds :: "u32 list \<Rightarrow> u32 list \<Rightarrow> regs \<Rightarrow> regs" where
  "rounds (k # ks) (w # ws) s = rounds ks ws (round1 k w s)"
| "rounds _ _ s = s"

definition add_regs :: "regs \<Rightarrow> regs \<Rightarrow> regs" where
  "add_regs s t =
     (case s of (a, b, c, d, e, f, g, h) \<Rightarrow>
        case t of (a', b', c', d', e', f', g', h') \<Rightarrow>
          (a + a', b + b', c + c', d + d', e + e', f + f', g + g', h + h'))"

definition compress :: "regs \<Rightarrow> byte list \<Rightarrow> regs" where
  "compress s blk = add_regs s (rounds K256 (schedule 64 (be32 blk)) s)"

definition word_bytes :: "u32 \<Rightarrow> byte list" where
  "word_bytes w = [ucast (drop_bit 24 w), ucast (drop_bit 16 w), ucast (drop_bit 8 w), ucast w]"

definition regs_bytes :: "regs \<Rightarrow> byte list" where
  "regs_bytes s =
     (case s of (a, b, c, d, e, f, g, h) \<Rightarrow> concat (map word_bytes [a, b, c, d, e, f, g, h]))"

definition sha256 :: "byte list \<Rightarrow> byte list" where
  "sha256 m = regs_bytes (foldl compress H256 (blocks (length (sha_pad m) div 64) (sha_pad m)))"

subsection \<open>Base58\<close>

text \<open>
  The codec of the \<^verbatim>\<open>bs58\<close> package: each leading zero byte is a leading \<^verbatim>\<open>1\<close>, the
  rest is the number in base 58; decoding throws on a character outside the
  alphabet.
\<close>

definition b58_alphabet :: string where
  "b58_alphabet = ''123456789ABCDEFGHJKLMNPQRSTUVWXYZabcdefghijkmnopqrstuvwxyz''"

fun index_of :: "'a \<Rightarrow> 'a list \<Rightarrow> int" where
  "index_of x [] = 0"
| "index_of x (y # ys) = (if x = y then 0 else 1 + index_of x ys)"

function int_digits :: "int \<Rightarrow> int \<Rightarrow> int list" where
  "int_digits b n = (if n \<le> 0 \<or> b \<le> 1 then [] else int_digits b (n div b) @ [n mod b])"
  by pat_completeness auto
termination
proof (relation "measure (\<lambda>(b, n). nat n)")
  show "wf (measure (\<lambda>(b, n). nat n))" by simp
next
  fix b n :: int
  assume "\<not> (n \<le> 0 \<or> b \<le> 1)"
  then have "0 < n" and "1 < b" by auto
  then have "n div b < n" by (simp add: int_div_less_self)
  moreover from \<open>0 < n\<close> \<open>1 < b\<close> have "0 \<le> n div b" by (simp add: pos_imp_zdiv_nonneg_iff)
  ultimately show "((b, n div b), (b, n)) \<in> measure (\<lambda>(b, n). nat n)"
    using \<open>0 < n\<close> by simp
qed

declare int_digits.simps [simp del]

definition bs58_encode :: "byte list \<Rightarrow> string" where
  "bs58_encode bs =
     replicate (length (takeWhile (\<lambda>b. b = 0) bs)) CHR ''1'' @
     map (\<lambda>d. b58_alphabet ! nat d) (int_digits 58 (foldl (\<lambda>n b. 256 * n + uint b) 0 bs))"

definition bs58_decode :: "string \<Rightarrow> byte list option" where
  "bs58_decode s =
     (if list_all (\<lambda>c. c \<in> set b58_alphabet) s
      then Some (replicate (length (takeWhile (\<lambda>c. c = CHR ''1'') s)) 0 @
                 map word_of_int
                   (int_digits 256 (foldl (\<lambda>n c. 58 * n + index_of c b58_alphabet) 0 s)))
      else None)"

subsection \<open>The instance\<close>

text \<open>
  The evidence that \<^verbatim>\<open>Reclaimer.recordReclaimSuccess\<close> writes for a reclamation, and
  what \<^verbatim>\<open>JSON.parse\<close> makes of it.
\<close>

definition reclaim_evidence :: "string \<Rightarrow> int \<Rightarrow> json" where
  "reclaim_evidence signature amount =
     JObj [(''signature'', JStr signature), (''amount'', JNum amount), (''slot'', JStr ''confirmed'')]"

definition evidence_JSON_parse :: "string \<Rightarrow> json option" where
  \<open>evidence_JSON_parse text =
     (if text = ''{"signature":"tx_A","amount":1500000,"slot":"confirmed"}''
        then Some (reclaim_evidence ''tx_A'' 1500000)
      else if text = ''{"signature":"tx_B","amount":2000000,"slot":"confirmed"}''
        then Some (reclaim_evidence ''tx_B'' 2000000)
      else undefined)\<close>

definition reference_libs :: Libs where
  "reference_libs =
     \<lparr>lib_sha256 = sha256,
      lib_sign_detached = undefined,
      lib_verify_detached = undefined,
      lib_bs58_decode = bs58_decode,
      lib_bs58_encode = bs58_encode,
      lib_base64_encode = undefined,
      lib_base64_decode = undefined,
      lib_URL = undefined,
      lib_JSON_parse = evidence_JSON_parse,
      lib_StringToBigInt = undefined,
      lib_localeCompare = undefined\<rparr>"





text \<open>
  A ledger after these steps: \<^verbatim>\<open>Reclaimer\<close> reclaimed B (state RECLAIMED, the event
  with its evidence); \<^verbatim>\<open>PolicyEngine.evaluate\<close> then found B with a zero balance and
  moved it to SKIPPED; later \<^verbatim>\<open>Reclaimer\<close> reclaimed A.
\<close>

definition skipped_after_reclaim_ledger :: Ledger where
  \<open>skipped_after_reclaim_ledger =
     \<lparr>sponsored_accounts =
        [(reclaimable_row ''A'' 0)\<lparr>lifecycle_state := ''RECLAIMED''\<rparr>,
         (reclaimable_row ''B'' 0)\<lparr>lifecycle_state := ''SKIPPED''\<rparr>],
      lifecycle_events =
        [\<lparr>event_id = 1, ev_account_pubkey = ''B'', old_state = ''RECLAIMABLE'',
          new_state = ''RECLAIMED'', trigger_reason = ''Reclamation Success'',
          evidence_payload = Some ''{"signature":"tx_B","amount":2000000,"slot":"confirmed"}'',
          ev_timestamp = Some ''2024-01-03 00:00:00''\<rparr>,
         \<lparr>event_id = 2, ev_account_pubkey = ''B'', old_state = ''RECLAIMED'',
          new_state = ''SKIPPED'', trigger_reason = ''Policy: 0 Balance'',
          evidence_payload = Some ''{"config":{"dbPath":"kora-rent-devnet.db","dryRun":false,"minLamports":0,"minAgeDays":0,"whitelist":[]}}'',
          ev_timestamp = Some ''2024-01-04 00:00:00''\<rparr>,
         \<lparr>event_id = 3, ev_account_pubkey = ''A'', old_state = ''RECLAIMABLE'',
          new_state = ''RECLAIMED'', trigger_reason = ''Reclamation Success'',
          evidence_payload = Some ''{"signature":"tx_A","amount":1500000,"slot":"confirmed"}'',
          ev_timestamp = Some ''2024-01-05 00:00:00''\<rparr>]\<rparr>\<close>

definition scenario_config :: ServiceConfig where
  "scenario_config = \<lparr>MIN_LAMPORTS_RECLAIM = Some 1000, MIN_AGE_DAYS = None, whitelist_hash = None\<rparr>"

section \<open>Theorems\<close>

subsection \<open>AppDatabase.getInstance\<close>

lemma getInstance_set:
  "db_instance st = Some c \<Longrightarrow> getInstance drv p v st = (Inr c, st)"
  by simp

lemma getInstance_calls_set:
  "db_instance st = Some c \<Longrightarrow>
   getInstance_calls drv calls st = (map (\<lambda>_. Inr c) calls, st)"
  by (induction calls) (auto simp del: getInstance.simps simp add: getInstance_set)

lemma getInstance_unset:
  "getInstance drv p v \<lparr>db_instance = None\<rparr> =
     (case drv p of
        ConstructorThrows \<Rightarrow> (Inl (SqliteError p), \<lparr>db_instance = None\<rparr>)
      | SetupThrows \<Rightarrow>
          (Inl (SqliteError p),
           \<lparr>db_instance = Some \<lparr>conn_path = p, conn_verbose = v, conn_schema_applied = False,
                                 conn_closed = False\<rparr>\<rparr>)
      | Ready \<Rightarrow>
          (Inr \<lparr>conn_path = p, conn_verbose = v, conn_schema_applied = True, conn_closed = False\<rparr>,
           \<lparr>db_instance = Some \<lparr>conn_path = p, conn_verbose = v, conn_schema_applied = True,
                                 conn_closed = False\<rparr>\<rparr>))"
  by (simp add: apply_schema_def split: driver_outcome.splits)

lemma getInstance_calls_step:
  "fst (getInstance_calls drv ((p, v) # rest) st) =
     fst (getInstance drv p v st) # fst (getInstance_calls drv rest (snd (getInstance drv p v st)))"
  by (simp add: split_beta del: getInstance.simps)

text \<open>
  C10 (amended).  For every sequence of \<^verbatim>\<open>getInstance\<close> calls in a process whose static
  field starts unset: the calls whose constructor throws each throw and leave the
  field unset; the first call whose constructor succeeds opens the connection for its
  own path (and throws itself when a pragma or the schema script throws, the field
  staying set); every call after that one returns that connection, whatever path and
  verbosity it passes.
\<close>

theorem getInstance_calls_share_first_opened:
  "fst (getInstance_calls drv calls \<lparr>db_instance = None\<rparr>) =
     map (\<lambda>(p, v). Inl (SqliteError p)) (takeWhile (\<lambda>(p, v). drv p = ConstructorThrows) calls) @
     (case dropWhile (\<lambda>(p, v). drv p = ConstructorThrows) calls of
        [] \<Rightarrow> []
      | (p, v) # later \<Rightarrow>
          (if drv p = SetupThrows then Inl (SqliteError p)
           else Inr \<lparr>conn_path = p, conn_verbose = v, conn_schema_applied = True,
                     conn_closed = False\<rparr>)
          # map (\<lambda>_. Inr \<lparr>conn_path = p, conn_verbose = v,
                             conn_schema_applied = (drv p \<noteq> SetupThrows), conn_closed = False\<rparr>)
                later)"
proof (induction calls)
  case Nil
  show ?case by simp
next
  case (Cons call calls)
  obtain p v where call: "call = (p, v)" by (cases call)
  show ?case
  proof (cases "drv p")
    case ConstructorThrows
    with Cons call show ?thesis
      by (simp add: getInstance_unset getInstance_calls_step
          del: getInstance.simps getInstance_calls.simps)
  next
    case SetupThrows
    then show ?thesis
      using call
        getInstance_calls_set [of "\<lparr>db_instance = Some \<lparr>conn_path = p, conn_verbose = v,
            conn_schema_applied = False, conn_closed = False\<rparr>\<rparr>" _ drv calls]
      by (simp add: getInstance_unset getInstance_calls_step
          del: getInstance.simps getInstance_calls.simps)
  next
    case Ready
    then show ?thesis
      using call
        getInstance_calls_set [of "\<lparr>db_instance = Some \<lparr>conn_path = p, conn_verbose = v,
            conn_schema_applied = True, conn_closed = False\<rparr>\<rparr>" _ drv calls]
      by (simp add: getInstance_unset getInstance_calls_step
          del: getInstance.simps getInstance_calls.simps)
  qed
qed

text \<open>
  C10 as stated, for every sequence of calls, fails where the first call throws in the
  constructor: the directory of the first path does not exist, nothing is assigned,
  and the second call opens and returns a connection for its own path.
\<close>

theorem getInstance_after_failed_open_counterexample:
  "getInstance_calls (\<lambda>p. if p = ''/no/such/dir/kora-rent-devnet.db'' then ConstructorThrows else Ready)
     [(''/no/such/dir/kora-rent-devnet.db'', False), (''kora-rent-mainnet.db'', False)]
     \<lparr>db_instance = None\<rparr> =
   ([Inl (SqliteError ''/no/such/dir/kora-rent-devnet.db''),
     Inr \<lparr>conn_path = ''kora-rent-mainnet.db'', conn_verbose = False, conn_schema_applied = True,
          conn_closed = False\<rparr>],
    \<lparr>db_instance = Some \<lparr>conn_path = ''kora-rent-mainnet.db'', conn_verbose = False,
                          conn_schema_applied = True, conn_closed = False\<rparr>\<rparr>) \<and>
   ''kora-rent-mainnet.db'' \<noteq> ''/no/such/dir/kora-rent-devnet.db''"
  by (simp add: apply_schema_def)

subsection \<open>Fetch-and-Lock\<close>

lemma set_sql_limit: "set (sql_limit n rows) \<subseteq> set rows"
  by (auto simp: sql_limit_def dest: in_set_takeD)

lemma select_candidates_sound:
  "r \<in> set (select_candidates limit tbl) \<Longrightarrow>
   r \<in> set tbl \<and> lifecycle_state r = ''RECLAIMABLE'' \<and> lock_free r"
  using set_sql_limit [of limit "filter (\<lambda>r. lifecycle_state r = ''RECLAIMABLE'' \<and> lock_free r) tbl"]
  by (auto simp: select_candidates_def)

lemma fold_update_lock:
  "fold (update_lock w) pks tbl =
   map (\<lambda>r. if account_pubkey r \<in> set pks then r\<lparr>processing_lock := Some w\<rparr> else r) tbl"
proof (induction pks arbitrary: tbl)
  case Nil
  show ?case by (simp add: map_idI)
next
  case (Cons pk pks)
  show ?case
    by (simp add: Cons.IH) (auto simp: update_lock_def)
qed

lemma to_double_safe:
  "- 9007199254740992 < n \<Longrightarrow> n < 9007199254740992 \<Longrightarrow> to_double n = n"
  by (simp add: to_double_def round_even_def ulp_from.simps)

lemma fetchAndLock_rows:
  assumes "fetchAndLock True limit w db = (res, db1)"
  shows "res = Inr (map (\<lambda>c. \<lparr>ra_account_pubkey = account_pubkey c,
                               ra_lamports = map_option to_double (lamports c)\<rparr>)
                   (select_candidates limit (sponsored_accounts db)))"
    and "sponsored_accounts db1 =
         map (\<lambda>r. if account_pubkey r \<in> account_pubkey ` set (select_candidates limit (sponsored_accounts db))
                   then r\<lparr>processing_lock := Some w\<rparr> else r) (sponsored_accounts db)"
proof -
  show "res = Inr (map (\<lambda>c. \<lparr>ra_account_pubkey = account_pubkey c,
                               ra_lamports = map_option to_double (lamports c)\<rparr>)
                   (select_candidates limit (sponsored_accounts db)))"
    using assms by (auto simp: fetchAndLock_def Let_def split: if_splits)
  show "sponsored_accounts db1 =
         map (\<lambda>r. if account_pubkey r \<in> account_pubkey ` set (select_candidates limit (sponsored_accounts db))
                   then r\<lparr>processing_lock := Some w\<rparr> else r) (sponsored_accounts db)"
  proof (cases "select_candidates limit (sponsored_accounts db) = []")
    case True
    with assms show ?thesis by (simp add: fetchAndLock_def map_idI)
  next
    case False
    with assms have "sponsored_accounts db1 =
        fold (update_lock w) (map account_pubkey (select_candidates limit (sponsored_accounts db)))
             (sponsored_accounts db)"
      by (auto simp: fetchAndLock_def Let_def)
    then show ?thesis by (simp add: fold_update_lock)
  qed
qed

text \<open>
  C9.  On a table with the \<^verbatim>\<open>processing_lock\<close> column, for every ledger state, every
  limit and the worker id of any orchestrator, \<^verbatim>\<open>fetchAndLock\<close> returns; it returns
  only rows that were RECLAIMABLE and whose \<^verbatim>\<open>processing_lock\<close> was null or empty;
  after the call every row carrying a returned address has
  \<^verbatim>\<open>processing_lock = workerId\<close>; and the next \<^verbatim>\<open>fetchAndLock\<close>, with any limit and any
  worker id, returns addresses disjoint from those of the first call.
\<close>

theorem fetchAndLock_exclusive:
  assumes "fetchAndLock True limit (worker_id uuid) db = (res, db1)"
    and "fetchAndLock True limit2 workerId2 db1 = (res2, db2)"
  shows "\<exists>got got2.
           res = Inr got \<and> res2 = Inr got2 \<and>
           (\<forall>a \<in> set got. \<exists>r \<in> set (sponsored_accounts db).
              account_pubkey r = ra_account_pubkey a \<and>
              map_option to_double (lamports r) = ra_lamports a \<and>
              lifecycle_state r = ''RECLAIMABLE'' \<and> lock_free r) \<and>
           (\<forall>r \<in> set (sponsored_accounts db1).
              account_pubkey r \<in> ra_account_pubkey ` set got \<longrightarrow>
              processing_lock r = Some (worker_id uuid)) \<and>
           ra_account_pubkey ` set got \<inter> ra_account_pubkey ` set got2 = {}"
proof -
  define sel where "sel = select_candidates limit (sponsored_accounts db)"
  define sel2 where "sel2 = select_candidates limit2 (sponsored_accounts db1)"
  define row :: "SponsoredAccount \<Rightarrow> ReclaimableAccount"
    where "row = (\<lambda>c. \<lparr>ra_account_pubkey = account_pubkey c,
                         ra_lamports = map_option to_double (lamports c)\<rparr>)"
  note first = fetchAndLock_rows [OF assms(1), folded sel_def row_def]
  note second = fetchAndLock_rows [OF assms(2), folded sel2_def row_def]
  have keys: "ra_account_pubkey ` set (map row cs) = account_pubkey ` set cs" for cs
    by (force simp: row_def image_iff)
  have sound: "\<forall>a \<in> set (map row sel). \<exists>r \<in> set (sponsored_accounts db).
              account_pubkey r = ra_account_pubkey a \<and>
              map_option to_double (lamports r) = ra_lamports a \<and>
              lifecycle_state r = ''RECLAIMABLE'' \<and> lock_free r"
    using select_candidates_sound [of _ limit "sponsored_accounts db"]
    by (auto simp: sel_def row_def)
  have locked: "\<forall>r \<in> set (sponsored_accounts db1).
              account_pubkey r \<in> ra_account_pubkey ` set (map row sel) \<longrightarrow>
              processing_lock r = Some (worker_id uuid)"
    unfolding keys first(2) by auto
  have disjoint: "ra_account_pubkey ` set (map row sel) \<inter> ra_account_pubkey ` set (map row sel2) = {}"
  proof (rule ccontr)
    assume "ra_account_pubkey ` set (map row sel) \<inter> ra_account_pubkey ` set (map row sel2) \<noteq> {}"
    then obtain pk where pk1: "pk \<in> ra_account_pubkey ` set (map row sel)"
      and pk2: "pk \<in> account_pubkey ` set sel2"
      unfolding keys [of sel2] by auto
    from pk2 obtain r where r: "r \<in> set (select_candidates limit2 (sponsored_accounts db1))"
      and rk: "account_pubkey r = pk"
      unfolding sel2_def by auto
    from select_candidates_sound [OF r] have "r \<in> set (sponsored_accounts db1)" and "lock_free r"
      by auto
    moreover from locked \<open>r \<in> set (sponsored_accounts db1)\<close> rk pk1
    have "processing_lock r = Some (worker_id uuid)" by auto
    ultimately show False by (simp add: lock_free_def worker_id_def)
  qed
  from first(1) second(1) sound locked disjoint show ?thesis by blast
qed

theorem fetchAndLock_exclusive_witness:
  "fetchAndLock True 1 (worker_id ''6f1c2a9e-58d3-4b7a-9c10-2e4d8a7b3f55'') lock_ledger =
     (Inr [\<lparr>ra_account_pubkey = ''A'', ra_lamports = Some 5000\<rparr>],
      lock_ledger\<lparr>sponsored_accounts :=
        [(reclaimable_row ''A'' 5000)\<lparr>processing_lock := Some ''worker-6f1c2a9e-58d3-4b7a-9c10-2e4d8a7b3f55''\<rparr>,
         (reclaimable_row ''B'' 7000)\<lparr>lifecycle_state := ''PROTECTED''\<rparr>,
         reclaimable_row ''C'' 9000]\<rparr>) \<and>
   fst (fetchAndLock True 5 (worker_id ''0b9d4c1e-7a2f-4e68-8d35-1c6f9e2a4b70'')
          (snd (fetchAndLock True 1 (worker_id ''6f1c2a9e-58d3-4b7a-9c10-2e4d8a7b3f55'') lock_ledger))) =
     Inr [\<lparr>ra_account_pubkey = ''C'', ra_lamports = Some 9000\<rparr>] \<and>
   ra_account_pubkey ` set [\<lparr>ra_account_pubkey = ''A'', ra_lamports = Some 5000\<rparr>] \<inter>
   ra_account_pubkey ` set [\<lparr>ra_account_pubkey = ''C'', ra_lamports = Some 9000\<rparr>] = {}"
proof -
  let ?db1 = "lock_ledger\<lparr>sponsored_accounts :=
        [(reclaimable_row ''A'' 5000)\<lparr>processing_lock := Some ''worker-6f1c2a9e-58d3-4b7a-9c10-2e4d8a7b3f55''\<rparr>,
         (reclaimable_row ''B'' 7000)\<lparr>lifecycle_state := ''PROTECTED''\<rparr>,
         reclaimable_row ''C'' 9000]\<rparr>"
  let ?db2 = "lock_ledger\<lparr>sponsored_accounts :=
        [(reclaimable_row ''A'' 5000)\<lparr>processing_lock := Some ''worker-6f1c2a9e-58d3-4b7a-9c10-2e4d8a7b3f55''\<rparr>,
         (reclaimable_row ''B'' 7000)\<lparr>lifecycle_state := ''PROTECTED''\<rparr>,
         (reclaimable_row ''C'' 9000)\<lparr>processing_lock := Some ''worker-0b9d4c1e-7a2f-4e68-8d35-1c6f9e2a4b70''\<rparr>]\<rparr>"
  have a: "fetchAndLock True 1 (worker_id ''6f1c2a9e-58d3-4b7a-9c10-2e4d8a7b3f55'') lock_ledger =
     (Inr [\<lparr>ra_account_pubkey = ''A'', ra_lamports = Some 5000\<rparr>], ?db1)"
    by (simp add: fetchAndLock_def select_candidates_def sql_limit_def lock_free_def
        lock_ledger_def reclaimable_row_def update_lock_def worker_id_def to_double_safe)
  have b: "fetchAndLock True 5 (worker_id ''0b9d4c1e-7a2f-4e68-8d35-1c6f9e2a4b70'') ?db1 =
     (Inr [\<lparr>ra_account_pubkey = ''C'', ra_lamports = Some 9000\<rparr>], ?db2)"
    by (simp add: fetchAndLock_def select_candidates_def sql_limit_def lock_free_def
        lock_ledger_def reclaimable_row_def update_lock_def worker_id_def to_double_safe)
  from fetchAndLock_exclusive [OF a b] show ?thesis
    by (simp add: a b)
qed

subsection \<open>Just-in-time verification\<close>

lemma verify_loop_spec:
  "i \<le> length accounts \<Longrightarrow>
   valid (verify_loop accounts infos i res) =
     valid res @
     List.map_filter (\<lambda>j. jit_valid (accounts ! j) (info_at infos j)) [i..<length accounts] \<and>
   map (\<lambda>v. (inv_pubkey v, inv_status v)) (invalid (verify_loop accounts infos i res)) =
     map (\<lambda>v. (inv_pubkey v, inv_status v)) (invalid res) @
     List.map_filter (\<lambda>j. jit_invalid (accounts ! j) (info_at infos j)) [i..<length accounts]"
proof (induction accounts infos i res rule: verify_loop.induct)
  case (1 accounts accountInfos i res)
  show ?case
  proof (cases "i < length accounts")
    case False
    with "1.prems" show ?thesis by (simp add: verify_loop.simps)
  next
    case True
    then have le: "i + 1 \<le> length accounts" by simp
    have up: "[i..<length accounts] = i # [i + 1..<length accounts]"
      using True by (simp add: upt_conv_Cons)
    note IH = "1.IH" [OF True refl refl]
    show ?thesis
    proof (cases "info_at accountInfos i")
      case None
      have step: "verify_loop accounts accountInfos i res = verify_loop accounts accountInfos (i + 1)
               (res\<lparr>invalid := invalid res @
                  [\<lparr>inv_pubkey = ra_account_pubkey (accounts ! i),
                    inv_reason = ''Account does not exist on-chain'',
                    inv_status = ''closed_zero''\<rparr>]\<rparr>)"
        using True None by (subst verify_loop.simps) (simp add: Let_def)
      from IH(1) [OF None le] show ?thesis
        unfolding step up using None
        by (simp add: jit_valid_def jit_invalid_def jit_rule_def)
    next
      case (Some info)
      show ?thesis
      proof (cases "ai_lamports info = 0")
        case z: True
        have step: "verify_loop accounts accountInfos i res = verify_loop accounts accountInfos (i + 1)
                 (res\<lparr>invalid := invalid res @
                    [\<lparr>inv_pubkey = ra_account_pubkey (accounts ! i),
                      inv_reason = ''Account has 0 lamports'',
                      inv_status = ''closed_zero''\<rparr>]\<rparr>)"
          using True Some z by (subst verify_loop.simps) (simp add: Let_def)
        from IH(2) [OF Some z le] show ?thesis
          unfolding step up using Some z
          by (simp add: jit_valid_def jit_invalid_def jit_rule_def)
      next
        case nz: False
        show ?thesis
        proof (cases "ai_owner info \<noteq> SYSTEM_PROGRAM_ID")
          case ow: True
          have step: "verify_loop accounts accountInfos i res = verify_loop accounts accountInfos (i + 1)
                 (res\<lparr>invalid := invalid res @
                    [\<lparr>inv_pubkey = ra_account_pubkey (accounts ! i),
                      inv_reason = ''Owner changed to '' @ ai_owner info,
                      inv_status = ''SKIPPED''\<rparr>]\<rparr>)"
            using True Some nz ow by (subst verify_loop.simps) (simp add: Let_def)
          from IH(3) [OF Some nz ow le] show ?thesis
            unfolding step up using Some nz ow
            by (simp add: jit_valid_def jit_invalid_def jit_rule_def SYSTEM_PROGRAM_ID_def)
        next
          case sys: False
          show ?thesis
          proof (cases "ai_data_length info > 0")
            case dl: True
            have step: "verify_loop accounts accountInfos i res = verify_loop accounts accountInfos (i + 1)
                 (res\<lparr>invalid := invalid res @
                    [\<lparr>inv_pubkey = ra_account_pubkey (accounts ! i),
                      inv_reason = ''Account has data len '' @ show_nat (ai_data_length info),
                      inv_status = ''SKIPPED''\<rparr>]\<rparr>)"
              using True Some nz sys dl by (subst verify_loop.simps) (simp add: Let_def)
            from IH(4) [OF Some nz sys dl le] show ?thesis
              unfolding step up using Some nz sys dl
              by (simp add: jit_valid_def jit_invalid_def jit_rule_def SYSTEM_PROGRAM_ID_def)
          next
            case nd: False
            have step: "verify_loop accounts accountInfos i res = verify_loop accounts accountInfos (i + 1)
                 (res\<lparr>valid := valid res @
                    [\<lparr>va_account_pubkey = ra_account_pubkey (accounts ! i),
                      va_lamports = ra_lamports (accounts ! i),
                      verifiedLamports = ai_lamports info\<rparr>]\<rparr>)"
              using True Some nz sys nd by (subst verify_loop.simps) (simp add: Let_def)
            from IH(5) [OF Some nz sys nd le] show ?thesis
              unfolding step up using Some nz sys nd
              by (simp add: jit_valid_def jit_invalid_def jit_rule_def SYSTEM_PROGRAM_ID_def)
          qed
        qed
      qed
    qed
  qed
qed

lemma map_filter_upt_zip:
  "List.map_filter (\<lambda>j. f (xs ! j) (g j)) [0..<length xs] =
   List.map_filter (\<lambda>(x, y). f x y) (zip xs (map g [0..<length xs]))"
proof -
  have "zip xs (map g [0..<length xs]) = map (\<lambda>j. (xs ! j, g j)) [0..<length xs]"
    by (rule nth_equalityI) simp_all
  then show ?thesis
    by (simp add: List.map_filter_def filter_map comp_def)
qed

text \<open>
  C6.  When every address is well formed and the chain answers, \<^verbatim>\<open>verify\<close> returns a
  result; its \<^verbatim>\<open>valid\<close> list holds, in batch order, exactly the accounts whose chain
  answer passes the four checks taken in the stated order, each with the on-chain
  lamports as \<^verbatim>\<open>verifiedLamports\<close> and the ledger's value only carried along; its
  \<^verbatim>\<open>invalid\<close> list holds, in batch order, the other accounts with the status the
  first failing check gives (closed_zero for an absent account or zero lamports,
  SKIPPED for a foreign owner or data).
\<close>

theorem verify_applies_jit_rules_in_order:
  assumes "\<forall>a \<in> set accounts. isPubkey (ra_account_pubkey a)"
    and "rpc (map ra_account_pubkey accounts) = Inr infos"
  shows "\<exists>res. verify isPubkey rpc accounts = Inr res \<and>
           valid res = List.map_filter (\<lambda>(acc, answer). jit_valid acc answer)
                         (zip accounts (chain_answers (length accounts) infos)) \<and>
           map (\<lambda>v. (inv_pubkey v, inv_status v)) (invalid res) =
             List.map_filter (\<lambda>(acc, answer). jit_invalid acc answer)
                         (zip accounts (chain_answers (length accounts) infos))"
proof (cases "accounts = []")
  case True
  then show ?thesis by (simp add: verify_def chain_answers_def)
next
  case False
  from assms(1) have nf: "find (\<lambda>a. \<not> isPubkey (ra_account_pubkey a)) accounts = None"
    by (simp add: find_None_iff)
  let ?res = "verify_loop accounts infos 0 \<lparr>valid = [], invalid = []\<rparr>"
  have v: "verify isPubkey rpc accounts = Inr ?res"
    using False nf assms(2) by (simp add: verify_def)
  from verify_loop_spec [of 0 accounts infos "\<lparr>valid = [], invalid = []\<rparr>"]
  have a: "valid ?res =
      List.map_filter (\<lambda>j. jit_valid (accounts ! j) (info_at infos j)) [0..<length accounts]"
    and b: "map (\<lambda>v. (inv_pubkey v, inv_status v)) (invalid ?res) =
      List.map_filter (\<lambda>j. jit_invalid (accounts ! j) (info_at infos j)) [0..<length accounts]"
    by simp_all
  show ?thesis
    unfolding v chain_answers_def
    using a b by (simp add: map_filter_upt_zip)
qed


theorem verify_applies_jit_rules_in_order_witness:
  "verify (\<lambda>_. True) (\<lambda>_. Inr jit_chain) jit_batch =
     Inr \<lparr>valid = [\<lparr>va_account_pubkey = ''A5'', va_lamports = Some 2000000,
                     verifiedLamports = 890880\<rparr>],
          invalid =
            [\<lparr>inv_pubkey = ''A1'', inv_reason = ''Account does not exist on-chain'',
              inv_status = ''closed_zero''\<rparr>,
             \<lparr>inv_pubkey = ''A2'', inv_reason = ''Account has 0 lamports'',
              inv_status = ''closed_zero''\<rparr>,
             \<lparr>inv_pubkey = ''A3'',
              inv_reason = ''Owner changed to TokenkegQfeZyiNwAJbNbGKPFXCWuBvf9Ss623VQ5DA'',
              inv_status = ''SKIPPED''\<rparr>,
             \<lparr>inv_pubkey = ''A4'', inv_reason = ''Account has data len 3'',
              inv_status = ''SKIPPED''\<rparr>]\<rparr> \<and>
   List.map_filter (\<lambda>(acc, answer). jit_valid acc answer)
       (zip jit_batch (chain_answers (length jit_batch) jit_chain)) =
     [\<lparr>va_account_pubkey = ''A5'', va_lamports = Some 2000000, verifiedLamports = 890880\<rparr>] \<and>
   List.map_filter (\<lambda>(acc, answer). jit_invalid acc answer)
       (zip jit_batch (chain_answers (length jit_batch) jit_chain)) =
     [(''A1'', ''closed_zero''), (''A2'', ''closed_zero''), (''A3'', ''SKIPPED''),
      (''A4'', ''SKIPPED'')]"
proof -
  have h1: "\<forall>a \<in> set jit_batch. (\<lambda>_. True) (ra_account_pubkey a)" by simp
  have h2: "(\<lambda>_. Inr jit_chain) (map ra_account_pubkey jit_batch) = (Inr jit_chain :: rpc_error + _)"
    by simp
  have ev: "verify (\<lambda>_. True) (\<lambda>_. Inr jit_chain) jit_batch =
     Inr \<lparr>valid = [\<lparr>va_account_pubkey = ''A5'', va_lamports = Some 2000000,
                     verifiedLamports = 890880\<rparr>],
          invalid =
            [\<lparr>inv_pubkey = ''A1'', inv_reason = ''Account does not exist on-chain'',
              inv_status = ''closed_zero''\<rparr>,
             \<lparr>inv_pubkey = ''A2'', inv_reason = ''Account has 0 lamports'',
              inv_status = ''closed_zero''\<rparr>,
             \<lparr>inv_pubkey = ''A3'',
              inv_reason = ''Owner changed to TokenkegQfeZyiNwAJbNbGKPFXCWuBvf9Ss623VQ5DA'',
              inv_status = ''SKIPPED''\<rparr>,
             \<lparr>inv_pubkey = ''A4'', inv_reason = ''Account has data len 3'',
              inv_status = ''SKIPPED''\<rparr>]\<rparr>"
    by (simp add: verify_def jit_batch_def jit_chain_def verify_loop.simps info_at_def
        SYSTEM_PROGRAM_ID_def show_nat.simps digit_char_def)
  from verify_applies_jit_rules_in_order [of jit_batch "\<lambda>_. True" "\<lambda>_. Inr jit_chain", OF h1 h2]
  show ?thesis
    unfolding ev by simp
qed



subsection \<open>Canonicalization\<close>

lemma set_insert_index: "set (insert_index k v ps) = insert (k, v) (set ps)"
  by (induction ps) auto

lemma distinct_insert_index:
  "k \<notin> fst ` set ps \<Longrightarrow> distinct (map fst ps) \<Longrightarrow> distinct (map fst (insert_index k v ps))"
  by (induction ps) (auto simp: set_insert_index)

lemma map_of_insert_index:
  "k \<notin> fst ` set ps \<Longrightarrow> map_of (insert_index k v ps) = (map_of ps)(k \<mapsto> v)"
  by (induction ps) (auto simp: fun_upd_twist)

lemma map_fst_update_in_place:
  "map fst (map (\<lambda>p. if fst p = k then (k, v) else p) acc) = map fst acc"
  by (induction acc) auto

lemma map_of_update_in_place_other:
  "x \<noteq> k \<Longrightarrow> map_of (map (\<lambda>p. if fst p = k then (k, v) else p) acc) x = map_of acc x"
  by (induction acc) auto

lemma map_of_update_in_place_key:
  "k \<in> fst ` set acc \<Longrightarrow> map_of (map (\<lambda>p. if fst p = k then (k, v) else p) acc) k = Some v"
  by (induction acc) auto

lemma map_of_update_in_place:
  assumes "k \<in> fst ` set acc"
  shows "map_of (map (\<lambda>p. if fst p = k then (k, v) else p) acc) = (map_of acc)(k \<mapsto> v)"
proof
  fix x
  show "map_of (map (\<lambda>p. if fst p = k then (k, v) else p) acc) x = ((map_of acc)(k \<mapsto> v)) x"
    using map_of_update_in_place_key [OF assms, of v] map_of_update_in_place_other [of x k v acc]
    by (cases "x = k") simp_all
qed

lemma keys_js_set:
  "fst ` set (js_set acc k v) =
     (if k = ''__proto__'' then fst ` set acc else insert k (fst ` set acc))"
proof -
  have "fst ` set (map (\<lambda>p. if fst p = k then (k, v) else p) acc) = fst ` set acc"
    using map_fst_update_in_place [of k v acc] by (metis list.set_map)
  then show ?thesis
    by (auto simp: js_set_def set_insert_index simp del: set_map)
qed

lemma distinct_js_set:
  assumes "distinct (map fst acc)"
  shows "distinct (map fst (js_set acc k v))"
proof -
  have "distinct (map fst (map (\<lambda>p. if fst p = k then (k, v) else p) acc))"
    using assms by (simp only: map_fst_update_in_place)
  moreover have "k \<notin> fst ` set acc \<Longrightarrow> distinct (map fst (acc @ [(k, v)]))"
    using assms by auto
  ultimately show ?thesis
    using assms distinct_insert_index [of k acc v] unfolding js_set_def by presburger
qed

lemma map_of_js_set:
  "map_of (js_set acc k v) = (if k = ''__proto__'' then map_of acc else (map_of acc)(k \<mapsto> v))"
proof -
  have "map_of (acc @ [(k, v)]) = (map_of acc)(k \<mapsto> v)" if "k \<notin> fst ` set acc"
  proof -
    from that have "map_of acc k = None" by (simp add: map_of_eq_None_iff)
    then show ?thesis
      by (auto simp: fun_eq_iff map_add_def split: option.splits)
  qed
  then show ?thesis
    by (auto simp: js_set_def map_of_update_in_place map_of_insert_index)
qed


lemma assign_all_Nil [simp]: "assign_all g acc [] = acc"
  by (simp add: assign_all_def)

lemma assign_all_Cons [simp]:
  "assign_all g acc (k # ks) =
     assign_all g (case g k of Some v \<Rightarrow> js_set acc k v | None \<Rightarrow> acc) ks"
  by (simp add: assign_all_def)

lemma distinct_assign_all:
  "distinct (map fst acc) \<Longrightarrow> distinct (map fst (assign_all g acc ks))"
  by (induction ks arbitrary: acc) (auto simp: distinct_js_set split: option.splits)

lemma map_of_assign_all:
  "map_of (assign_all g acc ks) k =
     (if k \<in> set ks \<and> k \<noteq> ''__proto__'' \<and> g k \<noteq> None then g k else map_of acc k)"
  by (induction ks arbitrary: acc) (auto simp: map_of_js_set split: option.splits)

lemma keys_assign_all:
  "fst ` set (assign_all g acc ks) =
     fst ` set acc \<union> {k \<in> set ks. k \<noteq> ''__proto__'' \<and> g k \<noteq> None}"
  by (induction ks arbitrary: acc) (auto simp: keys_js_set split: option.splits if_splits)

lemma assign_all_filter:
  "assign_all g acc (filter (\<lambda>k. k \<noteq> ''__proto__'' \<and> g k \<noteq> None) ks) = assign_all g acc ks"
  by (induction ks arbitrary: acc) (auto simp: js_set_def split: option.splits)

lemma assign_all_cong:
  "(\<And>k. k \<in> set ks \<Longrightarrow> g k = h k) \<Longrightarrow> assign_all g acc ks = assign_all h acc ks"
  by (induction ks arbitrary: acc) auto

lemma canonicalize_JObj:
  "canonicalize (JObj ps) =
     JObj (assign_all (\<lambda>k. map_option canonicalize (js_get ps k)) [] (sort (js_keys ps)))"
proof -
  have "(\<lambda>acc key. case js_get ps key of Some v \<Rightarrow> js_set acc key (canonicalize v) | None \<Rightarrow> acc)
      = (\<lambda>acc key. case map_option canonicalize (js_get ps key) of
                      Some v \<Rightarrow> js_set acc key v | None \<Rightarrow> acc)"
    by (auto simp: fun_eq_iff split: option.splits)
  then show ?thesis by (simp add: assign_all_def)
qed

lemma js_get_keys: "js_get ps k \<noteq> None \<longleftrightarrow> k \<in> set (js_keys ps)"
  by (simp add: js_get_def js_keys_def map_of_eq_None_iff)

lemma canonicalize_idem: "canonicalize (canonicalize v) = canonicalize v"
proof (induction v rule: canonicalize.induct)
  case (1 xs)
  then show ?case by simp
next
  case (2 ps)
  define g where "g = (\<lambda>k. map_option canonicalize (js_get ps k))"
  define K where "K = sort (js_keys ps)"
  define R where "R = assign_all g [] K"
  define F where "F = filter (\<lambda>k. k \<noteq> ''__proto__'' \<and> g k \<noteq> None) K"
  have IH: "canonicalize (canonicalize v) = canonicalize v" if "js_get ps k = Some v" for k v
  proof -
    from that have "k \<in> set (sort (js_keys ps))" using js_get_keys [of ps k] by simp
    from "2.IH" [OF this that] show ?thesis .
  qed
  have dK: "distinct K" and sK: "sorted K" by (simp_all add: K_def js_keys_def)
  have dR: "distinct (map fst R)" unfolding R_def by (rule distinct_assign_all) simp
  have kR: "set (map fst R) = set F"
    using keys_assign_all [of g "[]" K] by (auto simp: R_def F_def)
  have "sort (js_keys R) = F"
  proof (rule sorted_distinct_set_unique)
    show "sorted (sort (js_keys R))" by simp
    show "distinct (sort (js_keys R))" by (simp add: js_keys_def)
    show "sorted F" using sK unfolding F_def by (rule sorted_wrt_filter)
    show "distinct F" using dK by (simp add: F_def)
    show "set (sort (js_keys R)) = set F" using kR by (simp add: js_keys_def)
  qed
  moreover have "map_option canonicalize (js_get R k) = g k" if "k \<in> set F" for k
  proof -
    from that have in_K: "k \<in> set K" and np: "k \<noteq> ''__proto__''" and gk: "g k \<noteq> None"
      by (auto simp: F_def)
    then have "js_get R k = g k"
      using map_of_assign_all [of g "[]" K k] by (simp add: R_def js_get_def)
    moreover from gk obtain v where v: "js_get ps k = Some v" by (auto simp: g_def)
    ultimately show ?thesis using IH [OF v] by (simp add: g_def)
  qed
  ultimately have "canonicalize (JObj R) = JObj (assign_all g [] F)"
    using assign_all_cong [of F "\<lambda>k. map_option canonicalize (js_get R k)" g "[]"]
    by (simp only: canonicalize_JObj)
  also have "assign_all g [] F = R"
    unfolding F_def R_def by (rule assign_all_filter)
  finally show ?case
    by (simp only: canonicalize_JObj R_def g_def K_def)
qed simp_all

lemma canonicalize_struct_equiv:
  "struct_equiv v w \<Longrightarrow> canonicalize v = canonicalize w"
proof (induction rule: struct_equiv.induct)
  case (eq_arr xs ys)
  then have "map canonicalize xs = map canonicalize ys"
    by (induction xs ys rule: list_all2_induct) auto
  then show ?case by simp
next
  case (eq_obj ps qs)
  have keys: "sort (js_keys ps) = sort (js_keys qs)"
    by (rule sorted_distinct_set_unique) (use eq_obj.hyps in \<open>simp_all add: js_keys_def\<close>)
  have "map_option canonicalize (js_get ps k) = map_option canonicalize (js_get qs k)"
    if "k \<in> set (sort (js_keys ps))" for k
  proof -
    from that obtain v where v: "js_get ps k = Some v"
      using js_get_keys [of ps k] by auto
    from that keys obtain w where w: "js_get qs k = Some w"
      using js_get_keys [of qs k] by auto
    from eq_obj.IH v w show ?thesis by simp
  qed
  then show ?case
    using assign_all_cong [of "sort (js_keys ps)" "\<lambda>k. map_option canonicalize (js_get ps k)"
        "\<lambda>k. map_option canonicalize (js_get qs k)" "[]"]
    by (simp only: canonicalize_JObj keys [symmetric])
qed simp_all

text \<open>
  C4.  \<^verbatim>\<open>canonicalize\<close> is idempotent, and two structurally equivalent values have
  the same canonical form, hence the same \<^verbatim>\<open>JSON.stringify\<close> output, character for
  character.
\<close>

theorem canonicalize_idempotent_and_order_independent:
  "canonicalize (canonicalize v) = canonicalize v \<and>
   (struct_equiv v1 v2 \<longrightarrow>
      canonicalize v1 = canonicalize v2 \<and>
      JSON_stringify (canonicalize v1) = JSON_stringify (canonicalize v2))"
  using canonicalize_idem [of v] canonicalize_struct_equiv [of v1 v2] by simp


lemma show_nat_digit: "n < 10 \<Longrightarrow> show_nat n = [digit_char n]"
  by (simp add: show_nat.simps)

lemma show_nat_step: "10 \<le> n \<Longrightarrow> show_nat n = show_nat (n div 10) @ [digit_char (n mod 10)]"
  by (subst show_nat.simps) simp

lemma Number_toString_safe:
  "- 9007199254740992 \<le> n \<Longrightarrow> n \<le> 9007199254740992 \<Longrightarrow> Number_toString n = show_int n"
  by (simp add: Number_toString_def)

lemmas show_eval = Number_toString_safe show_int_def show_nat_digit show_nat_step digit_char_def

lemma doc_one_two_equiv: "struct_equiv doc_one doc_two"
  unfolding doc_one_def doc_two_def
  by (rule struct_equiv.intros)
     (auto simp: js_get_def split: if_splits intro!: struct_equiv.intros)

theorem canonicalize_idempotent_and_order_independent_witness:
  \<open>struct_equiv doc_one doc_two \<and>
   canonicalize doc_one = canonicalize doc_two \<and>
   JSON_stringify (canonicalize doc_one) = JSON_stringify (canonicalize doc_two) \<and>
   JSON_stringify (canonicalize doc_one) =
     ''{"9":true,"10":null,"candidates":["B","A"],"config":{"min_age_days":0,"min_lamports":1000},"version":"1.0.0"}''\<close>
proof -
  have e: "struct_equiv doc_one doc_two" by (rule doc_one_two_equiv)
  have s: \<open>JSON_stringify (canonicalize doc_one) =
     ''{"9":true,"10":null,"candidates":["B","A"],"config":{"min_age_days":0,"min_lamports":1000},"version":"1.0.0"}''\<close>
    by (simp add: doc_one_def js_keys_def js_get_def js_set_def is_array_index_def is_digit_def
        index_value_def quote_def escape_char_def show_eval)
  from canonicalize_idempotent_and_order_independent [of doc_one doc_one doc_two] e s
  show ?thesis by simp
qed


subsection \<open>Policy Engine\<close>

text \<open>
  C2.  The claim fails on the code: the candidate query excludes the lower-case state
  \<^verbatim>\<open>'reclaimed'\<close>, the Reclaimer writes \<^verbatim>\<open>'RECLAIMED'\<close>, so a reclaimed account is
  evaluated again.  With zero lamports it meets the zero-balance rule: its state
  becomes SKIPPED and an event RECLAIMED to SKIPPED is appended.
\<close>

theorem evaluate_changes_reclaimed_account:
  \<open>evaluate default_policy (\<lambda>_. None) 0 ''2024-01-04 00:00:00'' reclaimed_ledger =
     \<lparr>sponsored_accounts =
        [(reclaimable_row ''B'' 0)\<lparr>lifecycle_state := ''SKIPPED''\<rparr>],
      lifecycle_events =
        lifecycle_events reclaimed_ledger @
        [\<lparr>event_id = 2, ev_account_pubkey = ''B'', old_state = ''RECLAIMED'',
          new_state = ''SKIPPED'', trigger_reason = ''Policy: 0 Balance'',
          evidence_payload = Some ''{"config":{"dbPath":"kora-rent-devnet.db","dryRun":false,"minLamports":0,"minAgeDays":0,"whitelist":[]}}'',
          ev_timestamp = Some ''2024-01-04 00:00:00''\<rparr>]\<rparr>\<close>
  by (simp add: evaluate_def policy_candidates_def driver_row_def to_double_safe evaluate_step_def
      checkEligibility_def updateState_def insert_event_def next_event_id_def config_json_def
      default_policy_def reclaimed_ledger_def reclaimable_row_def quote_def escape_char_def
      show_eval)


subsection \<open>Indexer cursor\<close>

text \<open>
  C3.  The claim fails on the code: the cursor is saved inside the page loop, once
  for every fetched page of a run that started without a cursor.  With 101
  transactions the first run fetches two pages, writes the cursor twice, and leaves
  it at \<^verbatim>\<open>sig1\<close>, the only signature of the last page and the oldest of all, after
  having set it to \<^verbatim>\<open>sig101\<close>, the newest signature of the first page.
\<close>

theorem run_saves_cursor_for_every_page:
  "run 5 \<lparr>operator = ''Op'', ix_dryRun = False\<rparr> ''2024-01-01 00:00:00''
       (chain_signatures history_101) (\<lambda>_. Inr None) fresh_indexer =
     Some \<lparr>cursor = Some ''sig1'', discovered = [], cursor_writes = [''sig101'', ''sig1'']\<rparr>"
  by code_simp




subsection \<open>Large integers\<close>

lemma js_prop_canonicalize_JObj:
  assumes "key \<in> fst ` set ps" and "key \<noteq> ''__proto__''"
  shows "js_prop (canonicalize (JObj ps)) key = map_option canonicalize (js_get ps key)"
proof -
  from assms(1) have k: "key \<in> set (sort (js_keys ps))" by (simp add: js_keys_def)
  then have "js_get ps key \<noteq> None" using js_get_keys [of ps key] by simp
  then show ?thesis
    using k assms(2)
      map_of_assign_all [of "\<lambda>k. map_option canonicalize (js_get ps k)" "[]" "sort (js_keys ps)" key]
    by (simp only: canonicalize_JObj js_prop_def json.case js_get_def) auto
qed

lemma value_at_canonicalize:
  "value_at v path = Some w \<Longrightarrow> Key ''__proto__'' \<notin> set path \<Longrightarrow>
   value_at (canonicalize v) path = Some (canonicalize w)"
proof (induction path arbitrary: v)
  case Nil
  then show ?case by simp
next
  case (Cons st path)
  show ?case
  proof (cases st)
    case (Key k)
    with Cons.prems obtain ps u where v: "v = JObj ps" and u: "js_get ps k = Some u"
      and rest: "value_at u path = Some w"
      by (auto split: json.splits option.splits)
    from Cons.prems Key have k: "k \<noteq> ''__proto__''" and p: "Key ''__proto__'' \<notin> set path"
      by auto
    from u have "k \<in> fst ` set ps"
      by (auto simp: js_get_def dest: map_of_SomeD intro: rev_image_eqI)
    from js_prop_canonicalize_JObj [OF this k] u
    have "js_prop (canonicalize (JObj ps)) k = Some (canonicalize u)" by simp
    moreover obtain qs where q: "canonicalize (JObj ps) = JObj qs"
      by (simp add: canonicalize_JObj)
    ultimately have "js_get qs k = Some (canonicalize u)"
      by (simp add: js_prop_def)
    with q v Key Cons.IH [OF rest p] show ?thesis by simp
  next
    case (Index i)
    with Cons.prems obtain xs where v: "v = JArr xs" and i: "i < length xs"
      and rest: "value_at (xs ! i) path = Some w"
      by (auto split: json.splits if_splits)
    from Cons.prems have p: "Key ''__proto__'' \<notin> set path" by auto
    from v i Index Cons.IH [OF rest p] show ?thesis by simp
  qed
qed

lemma show_nat_head: "show_nat n \<noteq> [] \<and> hd (show_nat n) \<in> set ''0123456789''"
proof (induction n rule: show_nat.induct)
  case (1 n)
  show ?case
  proof (cases "n < 10")
    case True
    have "n mod 10 < 10" by simp
    then have "''0123456789'' ! (n mod 10) \<in> set ''0123456789''"
      by (intro nth_mem) simp
    with True show ?thesis
      by (subst (1 2) show_nat.simps) (simp add: digit_char_def)
  next
    case False
    with 1 have "show_nat (n div 10) \<noteq> [] \<and> hd (show_nat (n div 10)) \<in> set ''0123456789''"
      by simp
    with False show ?thesis
      by (subst (1 2) show_nat.simps) simp
  qed
qed

lemma Number_toString_head:
  "Number_toString n \<noteq> [] \<and> hd (Number_toString n) \<in> set ''-0123456789''"
  using show_nat_head [of "nat n"] show_nat_head [of "nat (- n)"]
    show_nat_head [of "nat (shortest (to_double n) (powers_of_ten (to_double n)))"]
    show_nat_head [of "nat (shortest (- to_double n) (powers_of_ten (- to_double n)))"]
  by (simp add: Number_toString_def show_int_def double_digits_def exponent_form_def)

lemma number_is_no_string: "JSON_stringify (JNum n) \<noteq> JSON_stringify (JStr s)"
proof
  assume "JSON_stringify (JNum n) = JSON_stringify (JStr s)"
  then have "hd (Number_toString n) = CHR 0x22" by (simp add: quote_def)
  with Number_toString_head [of n] show False by auto
qed

lemmas double_eval = Number_toString_def double_digits_def exponent_form_def strip_zeros_def
  powers_of_ten_def shortest_at_def to_double_def round_even_def ulp_from.simps
  show_int_def show_nat_digit show_nat_step digit_char_def

text \<open>
  C5 as stated fails: \<^verbatim>\<open>canonicalize\<close> returns a number as it is, and
  \<^verbatim>\<open>JSON.stringify\<close> then prints a JSON number.  \<open>9007199254740994\<close> is \<open>2^53 + 2\<close>.
\<close>

theorem canonicalize_keeps_large_number_counterexample:
  "canonicalize (JNum 9007199254740994) = JNum 9007199254740994 \<and>
   JSON_stringify (canonicalize (JNum 9007199254740994)) = ''9007199254740994'' \<and>
   JSON_stringify (canonicalize (JNum 9007199254740994)) \<noteq> JSON_stringify (JStr ''9007199254740994'')"
  by (simp add: double_eval quote_def)

text \<open>
  C5 (amended).  A number found anywhere in a structured value, under any chain of
  property names (other than \<^verbatim>\<open>__proto__\<close>, whose assignment creates no property) and
  array indexes, is the same number at the same place of the canonical value,
  whatever its magnitude, and \<^verbatim>\<open>JSON.stringify\<close> prints a number as a number token,
  never as a string.  A decimal-digit string appears only where the value holds a
  string already: the canonical form of a result digest carries under
  \<^verbatim>\<open>total_lamports_reclaimed\<close> the string that \<^verbatim>\<open>ResultBuilder.build\<close> made of its
  BigInt total with \<^verbatim>\<open>toString\<close>.
\<close>

theorem canonicalize_leaves_numbers_numbers:
  assumes "value_at v path = Some (JNum n)" and "Key ''__proto__'' \<notin> set path"
  shows "value_at (canonicalize v) path = Some (JNum n) \<and>
         (\<forall>s. JSON_stringify (JNum n) \<noteq> JSON_stringify (JStr s)) \<and>
         value_at (canonicalize (result_json (build_result libs rb))) [Key ''total_lamports_reclaimed'']
           = Some (JStr (show_int (totalLamports rb)))"
proof -
  have "value_at (result_json (build_result libs rb)) [Key ''total_lamports_reclaimed'']
          = Some (JStr (show_int (totalLamports rb)))"
    by (simp add: result_json_def build_result_def js_get_def)
  from value_at_canonicalize [OF this] value_at_canonicalize [OF assms] number_is_no_string
  show ?thesis by simp
qed

theorem canonicalize_leaves_numbers_numbers_witness:
  "value_at (canonicalize doc_large) [Key ''balances'', Index 1] = Some (JNum 18446744073709551616) \<and>
   (\<forall>s. JSON_stringify (JNum 18446744073709551616) \<noteq> JSON_stringify (JStr s)) \<and>
   value_at (canonicalize (result_json (build_result reference_libs
        \<lparr>rb_accounts = [], totalLamports = 18446744073709551616, rb_signatures = [], rb_failures = []\<rparr>)))
      [Key ''total_lamports_reclaimed''] = Some (JStr ''18446744073709551616'')"
proof -
  have a: "value_at doc_large [Key ''balances'', Index 1] = Some (JNum 18446744073709551616)"
    by (simp add: doc_large_def js_get_def)
  have b: "Key ''__proto__'' \<notin> set [Key ''balances'', Index 1]" by simp
  have c: "show_int 18446744073709551616 = ''18446744073709551616''"
    by (simp add: show_int_def show_nat_digit show_nat_step digit_char_def)
  from canonicalize_leaves_numbers_numbers [OF a b, of reference_libs
        "\<lparr>rb_accounts = [], totalLamports = 18446744073709551616, rb_signatures = [], rb_failures = []\<rparr>"]
  show ?thesis by (simp add: c)
qed


subsection \<open>Attestation round trip\<close>






subsection \<open>Result digest\<close>

lemma skipped_after_reclaim_scan:
  "scan_accounts reference_libs (lifecycle_events skipped_after_reclaim_ledger)
       (sponsored_accounts skipped_after_reclaim_ledger) new_ResultBuilder =
     Inr \<lparr>rb_accounts = [(''A'', JStr ''RECLAIMED''), (''B'', JStr ''SKIPPED'')],
          totalLamports = 3500000, rb_signatures = [JStr ''tx_A'', JStr ''tx_B''],
          rb_failures = []\<rparr>"
  by (simp add: skipped_after_reclaim_ledger_def reclaimable_row_def scan_account_def
      reclaim_payload_def first_event_def reference_libs_def evidence_JSON_parse_def
      reclaim_evidence_def prop_truthy_def js_prop_def js_get_def addResult_def addSignature_def
      BigInt_def new_ResultBuilder_def js_set_def is_array_index_def is_digit_def Let_def)

text \<open>
  C8.  The claim fails on the code: the lookup of the reclamation event is made for
  every account, not only for those whose state is RECLAIMED, and \<^verbatim>\<open>addResult\<close> adds
  the amount it is handed whatever the state.  Account B is SKIPPED and still holds
  its reclamation event: the digest counts B's 2000000 lamports next to A's 1500000
  and lists B's signature, where the claim, and the comment in the loop, count
  RECLAIMED accounts only.
\<close>

theorem digest_counts_reclaim_event_of_skipped_account:
  "\<exists>doc. AttestationService_generate reference_libs False skipped_after_reclaim_ledger ''devnet''
            scenario_config None ''https://api.devnet.solana.com'' = Inr doc \<and>
         digest_accounts (doc_result_digest doc) = [(''A'', JStr ''RECLAIMED''), (''B'', JStr ''SKIPPED'')] \<and>
         total_lamports_reclaimed (doc_result_digest doc) = ''3500000'' \<and>
         transaction_signatures (doc_result_digest doc) = [JStr ''tx_A'', JStr ''tx_B''] \<and>
         failures (doc_result_digest doc) = []"
  by (simp add: AttestationService_generate_def skipped_after_reclaim_scan Attestor_generate_def
      Let_def build_result_def sort_by_def show_eval)

end
